theory Spec2Isabelle
  imports Main "HOL-Library.Word"
begin

section \<open>Shared data of the notarization protocol\<close>

text \<open>
  The model follows \<^verbatim>\<open>src/pbaas/notarization.cpp\<close>. Hashes and identifiers are fixed-width
  words, C++ vectors are lists, and a \<^verbatim>\<open>std::map\<close> is an association list kept in key
  order with unique keys. Functions of other translation units (hashing, key recovery,
  wallet and index lookups, the reserve-transfer import engine) are parameters of the
  operations that call them, collected in records of functions.
\<close>

type_synonym uint160 = "160 word"
type_synonym uint256 = "256 word"
type_synonym uint32 = "32 word"
type_synonym int32 = "32 word"
type_synonym int64 = "64 word"
type_synonym bytes = "8 word list"
type_synonym CIdentityID = uint160

datatype ESignatureVerification = SIGNATURE_INVALID | SIGNATURE_PARTIAL | SIGNATURE_COMPLETE

text \<open>
  The evaluation codes are an enumeration of another header; only their being distinct is
  used, so they are constructors.
\<close>

datatype EvalCode =
    EVAL_NONE
  | EVAL_EARNEDNOTARIZATION
  | EVAL_ACCEPTEDNOTARIZATION
  | EVAL_FINALIZE_NOTARIZATION
  | EVAL_FINALIZE_EXPORT
  | EVAL_NOTARY_EVIDENCE
  | EVAL_OTHER nat

text \<open>
  \<^verbatim>\<open>COptCCParams\<close>: the decoded parameters of a crypto-condition output. The verdict of
  its \<^verbatim>\<open>IsValid()\<close>, defined in another file, is carried as a field.
\<close>

record COptCCParams =
  ccp_IsValid :: bool
  ccp_version :: nat
  evalCode :: EvalCode
  vData :: "bytes list"

text \<open>
  Modelled from the spec: the version constants of \<^verbatim>\<open>COptCCParams\<close> are declared in a
  header that is not part of this file; outputs are versioned, and version 3 is the one the
  notarization outputs require.
\<close>

definition VERSION_V3 :: nat where
  "VERSION_V3 = 3"

text \<open>
  \<^verbatim>\<open>CScript::IsPayToCryptoCondition(p)\<close> either fails or yields the parameters: a script is
  one of the two.
\<close>

datatype CScript = PayToCryptoCondition COptCCParams | OtherScript bytes

fun IsPayToCryptoCondition :: "CScript \<Rightarrow> COptCCParams option" where
  "IsPayToCryptoCondition (PayToCryptoCondition p) = Some p"
| "IsPayToCryptoCondition (OtherScript _) = None"

record CTxOut =
  scriptPubKey :: CScript
  nValue :: int64

record CTransaction =
  tx_hash :: uint256
  vout :: "CTxOut list"

record CUTXORef =
  utxo_hash :: uint256
  utxo_n :: uint32

text \<open>
  A transaction destination with the index \<^verbatim>\<open>which()\<close> reports and the 160-bit identifier
  \<^verbatim>\<open>GetDestinationID\<close> gives for it.
\<close>

datatype AddrType = ADDRTYPE_INVALID | ADDRTYPE_PK | ADDRTYPE_PKH | ADDRTYPE_SH | ADDRTYPE_ID

record CTxDestination =
  which :: AddrType
  GetDestinationID :: uint160

record CIdentity =
  id_IsValid :: bool
  id_IsValidUnrevoked :: bool
  id_name :: string
  primaryAddresses :: "CTxDestination list"
  minSigs :: nat

record CIdentitySignature =
  sig_version :: nat
  sig_blockHeight :: uint32
  sig_signatures :: "bytes list"

record CNotaryEvidence =
  ne_version :: nat
  ne_type :: nat
  systemID :: uint160
  ne_output :: CUTXORef
  confirmed :: bool
  signatures :: "(CIdentityID \<times> CIdentitySignature) list"
  evidence :: "bytes list"

subsection \<open>Ordered maps with unique keys\<close>

definition map_count :: "'k \<Rightarrow> ('k \<times> 'v) list \<Rightarrow> bool" where
  "map_count k m = (map_of m k \<noteq> None)"

text \<open>\<^verbatim>\<open>std::map::insert\<close>: a pair whose key is present already is not inserted.\<close>

definition map_insert :: "'k::linorder \<Rightarrow> 'v \<Rightarrow> ('k \<times> 'v) list \<Rightarrow> ('k \<times> 'v) list" where
  "map_insert k v m = (if map_count k m then m else insort_key fst (k, v) m)"

section \<open>Signing notary evidence\<close>

text \<open>
  The identity-map key of the wallet, with the verdict of its \<^verbatim>\<open>CanSign()\<close>.
\<close>

record CIdentityMapKey =
  key_idID :: uint160
  key_blockHeight :: uint32
  CanSign :: bool

text \<open>
  What \<^verbatim>\<open>SignConfirmed\<close> and \<^verbatim>\<open>SignRejected\<close> call outside this file, for a key store of
  type \<^typ>\<open>'ks\<close>: \<^verbatim>\<open>GetIdentity\<close> returns its verdict and the value it leaves in the
  \<^verbatim>\<open>keyAndIdentity\<close> pair; \<^verbatim>\<open>NewSignature\<close> returns its verdict and the signature object
  it filled in.
\<close>

record 'ks SignEnv =
  GetIdentity :: "'ks \<Rightarrow> CIdentityID \<Rightarrow> uint32 \<Rightarrow> bool \<times> CIdentityMapKey \<times> CIdentity"
  NewSignature :: "CIdentity \<Rightarrow> uint160 list \<Rightarrow> uint256 list \<Rightarrow> uint160 \<Rightarrow> uint32 \<Rightarrow> string
                     \<Rightarrow> uint256 \<Rightarrow> 'ks \<Rightarrow> ESignatureVerification \<times> CIdentitySignature"
  HashWriter :: "bytes \<Rightarrow> uint256"
  NotaryConfirmedKey :: uint160
  NotaryRejectedKey :: uint160

text \<open>
  The check of the object to sign, lines 80 to 89: the transaction is the one the evidence
  refers to, the output exists, is a crypto-condition with a non-empty first data element
  and an evaluation code.
\<close>

definition signable_object :: "CNotaryEvidence \<Rightarrow> CTransaction \<Rightarrow> COptCCParams option" where
  "signable_object ne txToConfirm =
     (if tx_hash txToConfirm \<noteq> utxo_hash (ne_output ne) then None
      else if length (vout txToConfirm) \<le> unat (utxo_n (ne_output ne)) then None
      else (case IsPayToCryptoCondition (scriptPubKey (vout txToConfirm ! unat (utxo_n (ne_output ne)))) of
              None \<Rightarrow> None
            | Some p \<Rightarrow>
                if vData p = [] then None
                else if hd (vData p) = [] then None
                else if evalCode p = EVAL_NONE then None
                else Some p))"

text \<open>
  \<^verbatim>\<open>CNotaryEvidence::SignConfirmed\<close>: the verdict and the evidence object after the call.
\<close>

definition SignConfirmed ::
  "'ks SignEnv \<Rightarrow> CNotaryEvidence \<Rightarrow> 'ks \<Rightarrow> CTransaction \<Rightarrow> CIdentityID \<Rightarrow> uint32
     \<Rightarrow> ESignatureVerification \<times> CNotaryEvidence" where
  "SignConfirmed env ne keyStore txToConfirm signWithID height =
     (if signatures ne \<noteq> [] \<and> \<not> confirmed ne then (SIGNATURE_INVALID, ne)
      else
        (case GetIdentity env keyStore signWithID height of (found, key, identity) \<Rightarrow>
           if \<not> found \<and> CanSign key then (SIGNATURE_INVALID, ne)
           else
             (case signable_object ne txToConfirm of
                None \<Rightarrow> (SIGNATURE_INVALID, ne)
              | Some p \<Rightarrow>
                  (case NewSignature env identity [NotaryConfirmedKey env] [] (systemID ne) height ''''
                          (HashWriter env (hd (vData p))) keyStore of
                     (sigResult, idSignature) \<Rightarrow>
                       if sigResult \<noteq> SIGNATURE_INVALID
                       then (sigResult, ne\<lparr>signatures := map_insert signWithID idSignature (signatures ne)\<rparr>)
                       else (sigResult, ne)))))"

text \<open>\<^verbatim>\<open>CNotaryEvidence::SignRejected\<close>, the same with the polarity and the purpose key turned.\<close>

definition SignRejected ::
  "'ks SignEnv \<Rightarrow> CNotaryEvidence \<Rightarrow> 'ks \<Rightarrow> CTransaction \<Rightarrow> CIdentityID \<Rightarrow> uint32
     \<Rightarrow> ESignatureVerification \<times> CNotaryEvidence" where
  "SignRejected env ne keyStore txToConfirm signWithID height =
     (if signatures ne \<noteq> [] \<and> confirmed ne then (SIGNATURE_INVALID, ne)
      else
        (case GetIdentity env keyStore signWithID height of (found, key, identity) \<Rightarrow>
           if \<not> found \<and> CanSign key then (SIGNATURE_INVALID, ne)
           else
             (case signable_object ne txToConfirm of
                None \<Rightarrow> (SIGNATURE_INVALID, ne)
              | Some p \<Rightarrow>
                  (case NewSignature env identity [NotaryRejectedKey env] [] (systemID ne) height ''''
                          (HashWriter env (hd (vData p))) keyStore of
                     (sigResult, idSignature) \<Rightarrow>
                       if sigResult \<noteq> SIGNATURE_INVALID
                       then (sigResult, ne\<lparr>signatures := map_insert signWithID idSignature (signatures ne)\<rparr>)
                       else (sigResult, ne)))))"

section \<open>Proof roots, currency states and notarizations\<close>

text \<open>
  Modelled from the spec: the version and type constants of the objects below are declared
  in headers that are not part of this file. The invalid version is 0 and differs from the
  current one; a proof root is of type PBAAS or ETHEREUM.
\<close>

definition VERSION_INVALID :: nat where
  "VERSION_INVALID = 0"

record CProofRoot =
  pr_version :: nat
  pr_type :: nat
  pr_systemID :: uint160
  rootHeight :: uint32
  stateRoot :: uint256
  blockHash :: uint256
  compactPower :: uint256

definition TYPE_PBAAS :: nat where
  "TYPE_PBAAS = 1"

definition TYPE_ETHEREUM :: nat where
  "TYPE_ETHEREUM = 2"

definition VERSION_CURRENT :: nat where
  "VERSION_CURRENT = 1"

text \<open>
  Modelled from the spec: the constructors of \<^verbatim>\<open>CProofRoot\<close> are declared in a header that
  is not part of this file. The default constructor gives the invalid, empty root; the
  other one packages its five arguments into a root of the current version.
\<close>

definition CProofRoot_empty :: CProofRoot where
  "CProofRoot_empty =
     \<lparr>pr_version = VERSION_INVALID, pr_type = TYPE_PBAAS, pr_systemID = 0, rootHeight = 0,
      stateRoot = 0, blockHash = 0, compactPower = 0\<rparr>"

definition CProofRoot_of :: "uint160 \<Rightarrow> uint32 \<Rightarrow> uint256 \<Rightarrow> uint256 \<Rightarrow> uint256 \<Rightarrow> CProofRoot" where
  "CProofRoot_of sysID h sroot bhash cpower =
     \<lparr>pr_version = VERSION_CURRENT, pr_type = TYPE_PBAAS, pr_systemID = sysID, rootHeight = h,
      stateRoot = sroot, blockHash = bhash, compactPower = cpower\<rparr>"

text \<open>
  Modelled from the spec: \<^verbatim>\<open>CProofRoot::IsValid\<close> is declared in the same header; a root
  is valid unless its version is the invalid one.
\<close>

definition pr_IsValid :: "CProofRoot \<Rightarrow> bool" where
  "pr_IsValid r = (pr_version r \<noteq> VERSION_INVALID)"

text \<open>
  The active chain: the vector of block indices, one per height from 0, each with its block
  hash, its compact chain power and the leaf it adds to the chain's Merkle mountain range.
  \<^verbatim>\<open>Height()\<close> is an \<^verbatim>\<open>int\<close>, \<open>-1\<close> on an empty chain.
\<close>

record CBlockIndex =
  GetBlockHash :: uint256
  CompactChainPower :: uint256
  mmr_leaf :: uint256

type_synonym CChain = "CBlockIndex list"

definition Height :: "CChain \<Rightarrow> int" where
  "Height chain = int (length chain) - 1"

text \<open>\<^verbatim>\<open>chainActive[h]\<close>: the block index at a height, a null pointer beyond the tip.\<close>

definition block_at :: "CChain \<Rightarrow> nat \<Rightarrow> CBlockIndex option" where
  "block_at chain h = (if h < length chain then Some (chain ! h) else None)"

text \<open>
  Modelled from the spec: the Merkle mountain range view (\<^verbatim>\<open>GetMMV\<close>, \<^verbatim>\<open>resize\<close>,
  \<^verbatim>\<open>GetRoot\<close>) is implemented outside this file. The view of a chain holds the leaves of
  its blocks; resizing to a height keeps that many leaves; the root is a function
  \<open>mmrRoot\<close> of the leaves kept, a parameter of the model.
\<close>

definition GetMMV :: "CChain \<Rightarrow> uint256 list" where
  "GetMMV chain = map mmr_leaf chain"

definition mmv_resize :: "nat \<Rightarrow> uint256 list \<Rightarrow> uint256 list" where
  "mmv_resize h mmv = take h mmv"

text \<open>
  \<^verbatim>\<open>CProofRoot::GetProofRoot\<close>. The height is unsigned and \<^verbatim>\<open>Height()\<close> signed, so the
  comparison converts \<^verbatim>\<open>Height()\<close> to 32 unsigned bits. Reading a field through the null
  pointer of a height without a block is the result \<open>None\<close>.
\<close>

definition GetProofRoot ::
  "(uint256 list \<Rightarrow> uint256) \<Rightarrow> uint160 \<Rightarrow> CChain \<Rightarrow> uint32 \<Rightarrow> CProofRoot option" where
  "GetProofRoot mmrRoot ASSETCHAINS_CHAINID chainActive blockHeight =
     (if blockHeight > (word_of_int (Height chainActive) :: uint32) then Some CProofRoot_empty
      else
        (let mmv = mmv_resize (unat blockHeight) (GetMMV chainActive) in
         case block_at chainActive (unat blockHeight) of
           None \<Rightarrow> None
         | Some b \<Rightarrow>
             Some (CProofRoot_of ASSETCHAINS_CHAINID blockHeight (mmrRoot mmv)
                     (GetBlockHash b) (CompactChainPower b))))"

text \<open>
  The currency state of a notarization. Modelled from the spec: its flag bits and their
  setters are declared in a header that is not part of this file; each named flag is a
  boolean of its own, so that setting one leaves the others as they are.
\<close>

record CCoinbaseCurrencyState =
  cs_IsValid :: bool
  cs_prelaunch :: bool
  cs_refunding :: bool
  cs_launchClear :: bool
  cs_launchConfirmed :: bool
  cs_launchCompleteMarker :: bool
  cs_supply :: int64
  reserves :: "int64 list"
  conversionPrice :: "int64 list"
  viaConversionPrice :: "int64 list"

text \<open>
  \<^verbatim>\<open>CPBaaSNotarization\<close>. Modelled from the spec: the flag bitset (isDefinition,
  isBlockOneNotarization, preLaunch, launchCleared, refunding, launchConfirmed, isMirror,
  sameChain) is a group of booleans, its constants being declared outside this file.
\<close>

record CPBaaSNotarization =
  nVersion :: nat
  isDefinition :: bool
  isBlockOneNotarization :: bool
  preLaunch :: bool
  launchCleared :: bool
  refunding :: bool
  launchConfirmed :: bool
  isMirror :: bool
  sameChain :: bool
  currencyID :: uint160
  proposer :: uint160
  notarizationHeight :: uint32
  currencyState :: CCoinbaseCurrencyState
  prevNotarization :: CUTXORef
  hashPrevNotarization :: uint256
  prevHeight :: uint32
  currencyStates :: "(uint160 \<times> CCoinbaseCurrencyState) list"
  proofRoots :: "(uint160 \<times> CProofRoot) list"
  nodes :: "(string \<times> string) list"

section \<open>Decoding a notarization or a finalization from a transaction\<close>

text \<open>
  The test of the loop at lines 199 to 202: the output is a valid crypto-condition carrying
  an accepted or an earned notarization with data.
\<close>

definition is_notarization_output :: "CTxOut \<Rightarrow> bool" where
  "is_notarization_output out =
     (case IsPayToCryptoCondition (scriptPubKey out) of
        None \<Rightarrow> False
      | Some p \<Rightarrow>
          ccp_IsValid p \<and>
          (evalCode p = EVAL_ACCEPTEDNOTARIZATION \<or> evalCode p = EVAL_EARNEDNOTARIZATION) \<and>
          vData p \<noteq> [])"

definition first_vData :: "CTxOut \<Rightarrow> bytes" where
  "first_vData out =
     (case IsPayToCryptoCondition (scriptPubKey out) of None \<Rightarrow> [] | Some p \<Rightarrow> hd (vData p))"

text \<open>
  The loop of \<^verbatim>\<open>CPBaaSNotarization(const CTransaction &, int32_t *)\<close> from output \<open>i\<close> on,
  over \<open>found\<close>, \<open>outIdx\<close> and the object under construction. \<open>FromVector\<close> deserializes
  into the object and is a parameter. The \<^verbatim>\<open>break\<close> ends the recursion.
\<close>

fun notarization_scan ::
  "(bytes \<Rightarrow> CPBaaSNotarization \<Rightarrow> CPBaaSNotarization) \<Rightarrow> CTxOut list \<Rightarrow> int
     \<Rightarrow> bool \<times> int \<times> CPBaaSNotarization \<Rightarrow> bool \<times> int \<times> CPBaaSNotarization" where
  "notarization_scan FromVector [] i st = st"
| "notarization_scan FromVector (out # outs) i (found, outIdx, this) =
     (if is_notarization_output out then
        (if found then (found, outIdx, this\<lparr>nVersion := VERSION_INVALID, proofRoots := []\<rparr>)
         else notarization_scan FromVector outs (i + 1)
                (True, i, FromVector (first_vData out) this))
      else notarization_scan FromVector outs (i + 1) (found, outIdx, this))"

text \<open>
  The member initializers of both constructors from chain data, lines 163 to 166 and 179 to
  182, on the object \<open>blank\<close> whose other members are default-constructed:
  \<^verbatim>\<open>flags(0)\<close> clears every flag.
\<close>

definition member_init :: "CPBaaSNotarization \<Rightarrow> CPBaaSNotarization" where
  "member_init blank =
     blank\<lparr>nVersion := VERSION_INVALID,
           isDefinition := False, isBlockOneNotarization := False, preLaunch := False,
           launchCleared := False, refunding := False, launchConfirmed := False,
           isMirror := False, sameChain := False,
           notarizationHeight := 0, prevHeight := 0\<rparr>"

text \<open>
  The constructor: the member initializers, then the loop. \<open>outIdx0\<close> is what the index
  variable held before. The result is the object and the index reported.
\<close>

definition CPBaaSNotarization_of_tx ::
  "(bytes \<Rightarrow> CPBaaSNotarization \<Rightarrow> CPBaaSNotarization) \<Rightarrow> CPBaaSNotarization \<Rightarrow> int
     \<Rightarrow> CTransaction \<Rightarrow> CPBaaSNotarization \<times> int" where
  "CPBaaSNotarization_of_tx FromVector blank outIdx0 tx =
     (case notarization_scan FromVector (vout tx) 0 (False, outIdx0, member_init blank) of
        (found, outIdx, this) \<Rightarrow> (this, outIdx))"

datatype FinalizationType = FINALIZE_NOTARIZATION | FINALIZE_EXPORT

record CObjectFinalization =
  of_version :: nat
  finalizationType :: FinalizationType
  of_confirmed :: bool
  of_rejected :: bool
  of_currencyID :: uint160
  of_output :: CUTXORef
  of_height :: uint32
  evidenceInputs :: "nat list"
  evidenceOutputs :: "nat list"

definition is_finalization_output :: "CTxOut \<Rightarrow> bool" where
  "is_finalization_output out =
     (case IsPayToCryptoCondition (scriptPubKey out) of
        None \<Rightarrow> False
      | Some p \<Rightarrow>
          ccp_IsValid p \<and>
          (evalCode p = EVAL_FINALIZE_NOTARIZATION \<or> evalCode p = EVAL_FINALIZE_EXPORT))"

definition output_evalCode :: "CTxOut \<Rightarrow> EvalCode" where
  "output_evalCode out =
     (case IsPayToCryptoCondition (scriptPubKey out) of None \<Rightarrow> EVAL_NONE | Some p \<Rightarrow> evalCode p)"

text \<open>
  The loop of \<^verbatim>\<open>CObjectFinalization(const CTransaction &, uint32_t *, int32_t *)\<close> over the
  object, \<open>ecode\<close> and \<open>finalizeOutNum\<close>.
\<close>

fun finalization_scan ::
  "CTxOut list \<Rightarrow> int \<Rightarrow> CObjectFinalization \<times> EvalCode \<times> int
     \<Rightarrow> CObjectFinalization \<times> EvalCode \<times> int" where
  "finalization_scan [] i st = st"
| "finalization_scan (out # outs) i (this, ecode, finalizeOutNum) =
     (if is_finalization_output out then
        (if finalizeOutNum \<noteq> - 1 then (this\<lparr>of_version := VERSION_INVALID\<rparr>, ecode, - 1)
         else finalization_scan outs (i + 1) (this, output_evalCode out, i))
      else finalization_scan outs (i + 1) (this, ecode, finalizeOutNum))"

definition CObjectFinalization_of_tx ::
  "CObjectFinalization \<Rightarrow> EvalCode \<Rightarrow> CTransaction \<Rightarrow> CObjectFinalization \<times> EvalCode \<times> int" where
  "CObjectFinalization_of_tx blank ecode0 tx = finalization_scan (vout tx) 0 (blank, ecode0, - 1)"

section \<open>Verifying notary signatures\<close>

datatype NotarizationProtocol =
  NOTARIZATION_AUTO | NOTARIZATION_NOTARY_CONFIRM | NOTARIZATION_NOTARY_CHAINID

text \<open>
  The fields of a currency definition that this file reads. \<open>cd_GetID\<close> is the value of
  \<^verbatim>\<open>GetID()\<close>, \<open>cd_IsValid\<close> and \<open>cd_IsFractional\<close> the verdicts of the methods.
\<close>

record CCurrencyDefinition =
  cd_IsValid :: bool
  cd_IsFractional :: bool
  cd_GetID :: uint160
  cd_name :: string
  cd_systemID :: uint160
  launchSystemID :: uint160
  startBlock :: uint32
  notaries :: "CIdentityID list"
  minNotariesConfirm :: nat
  notarizationProtocol :: NotarizationProtocol
  currencies :: "uint160 list"
  minPreconvert :: "int64 list"
  maxPreconvert :: "int64 list"
  contributions :: "int64 list"

text \<open>
  What signature verification calls outside this file: the currency and identity lookups,
  the hash an identity signs, the recovery of the key identifier from a compact signature,
  and the derivation of condition identifiers.
\<close>

record VerifyEnv =
  GetCurrencyDefinition :: "uint160 \<Rightarrow> CCurrencyDefinition option"
  LookupIdentity :: "CIdentityID \<Rightarrow> uint32 \<Rightarrow> CIdentity"
  IdentitySignatureHash :: "CIdentitySignature \<Rightarrow> uint160 list \<Rightarrow> uint256 list \<Rightarrow> uint160
                              \<Rightarrow> uint32 \<Rightarrow> CIdentityID \<Rightarrow> string \<Rightarrow> uint256 \<Rightarrow> uint256"
  RecoverCompactID :: "uint256 \<Rightarrow> bytes \<Rightarrow> uint160"
  GetConditionID :: "uint160 \<Rightarrow> uint160 \<Rightarrow> uint256 \<Rightarrow> uint32 \<Rightarrow> uint160"
  NotarySignatureKey :: uint160
  HashBytes :: "bytes \<Rightarrow> uint256"

text \<open>
  The loop over the primary addresses of a signer, lines 1867 to 1876 and 2024 to 2032:
  the set of address identifiers, or \<open>None\<close> where the loop returns.
\<close>

fun collect_idAddresses :: "CTxDestination list \<Rightarrow> uint160 list \<Rightarrow> uint160 list option" where
  "collect_idAddresses [] idAddresses = Some idAddresses"
| "collect_idAddresses (oneAddress # rest) idAddresses =
     (if which oneAddress \<noteq> ADDRTYPE_PK \<or> which oneAddress \<noteq> ADDRTYPE_PKH then None
      else collect_idAddresses rest (List.insert (GetDestinationID oneAddress) idAddresses))"

text \<open>The loop over the raw signatures of one identity, lines 1878 to 1888.\<close>

fun verify_raw_signatures ::
  "(bytes \<Rightarrow> uint160) \<Rightarrow> uint160 list \<Rightarrow> bytes list \<Rightarrow> uint160 list \<Rightarrow> uint160 list option" where
  "verify_raw_signatures recover idAddresses [] verifiedSignatures = Some verifiedSignatures"
| "verify_raw_signatures recover idAddresses (oneSig # rest) verifiedSignatures =
     (if recover oneSig \<notin> set idAddresses then None
      else verify_raw_signatures recover idAddresses rest
             (List.insert (recover oneSig) verifiedSignatures))"

text \<open>
  The loop over the authorized notaries, lines 1851 to 1904, over the sets of completed and
  of partial signatures; \<open>None\<close> where it returns \<^verbatim>\<open>SIGNATURE_INVALID\<close>.
\<close>

fun verify_notaries ::
  "VerifyEnv \<Rightarrow> CNotaryEvidence \<Rightarrow> uint160 list \<Rightarrow> uint160 \<Rightarrow> uint32 \<Rightarrow> uint256
     \<Rightarrow> CIdentityID list \<Rightarrow> uint160 list \<times> uint160 list \<Rightarrow> (uint160 list \<times> uint160 list) option" where
  "verify_notaries env signature vdxfCodes curID height msgHash [] sets = Some sets"
| "verify_notaries env signature vdxfCodes curID height msgHash (authorizedNotary # rest)
       (completedSignatures, partialSignatures) =
     (case map_of (signatures signature) authorizedNotary of
        None \<Rightarrow>
          verify_notaries env signature vdxfCodes curID height msgHash rest
            (completedSignatures, partialSignatures)
      | Some oneIDSig \<Rightarrow>
          (let sigHash = IdentitySignatureHash env oneIDSig vdxfCodes [] curID height
                           authorizedNotary [] msgHash;
               signer = LookupIdentity env authorizedNotary height
           in if id_IsValid signer then
                (case collect_idAddresses (primaryAddresses signer) [] of
                   None \<Rightarrow> None
                 | Some idAddresses \<Rightarrow>
                     (case verify_raw_signatures (RecoverCompactID env sigHash) idAddresses
                             (sig_signatures oneIDSig) [] of
                        None \<Rightarrow> None
                      | Some verifiedSignatures \<Rightarrow>
                          if length verifiedSignatures \<ge> minSigs signer
                          then verify_notaries env signature vdxfCodes curID height msgHash rest
                                 (List.insert authorizedNotary completedSignatures, partialSignatures)
                          else verify_notaries env signature vdxfCodes curID height msgHash rest
                                 (completedSignatures, List.insert authorizedNotary partialSignatures)))
              else None))"

text \<open>
  \<^verbatim>\<open>CObjectFinalization::VerifyOutputSignature\<close> with the decoded parameters \<open>p\<close> of the
  output, lines 1828 to 1922.
\<close>

definition VerifyOutputSignature ::
  "VerifyEnv \<Rightarrow> CObjectFinalization \<Rightarrow> CTransaction \<Rightarrow> CNotaryEvidence \<Rightarrow> COptCCParams \<Rightarrow> uint32
     \<Rightarrow> ESignatureVerification" where
  "VerifyOutputSignature env this initialTx signature p height =
     (if ccp_IsValid p \<and> ccp_version p \<ge> VERSION_V3 \<and> vData p \<noteq> [] then
        (case GetCurrencyDefinition env (of_currencyID this) of
           None \<Rightarrow> SIGNATURE_INVALID
         | Some curDef \<Rightarrow>
             if \<not> cd_IsValid curDef then SIGNATURE_INVALID
             else
               (let txId = (if utxo_hash (of_output this) = 0 then tx_hash initialTx
                            else utxo_hash (of_output this));
                    vdxfCodes = [GetConditionID env (of_currencyID this) (NotarySignatureKey env)
                                   txId (utxo_n (of_output this))];
                    msgHash = HashBytes env (hd (vData p))
                in case verify_notaries env signature vdxfCodes (of_currencyID this) height msgHash
                          (notaries curDef) ([], []) of
                     None \<Rightarrow> SIGNATURE_INVALID
                   | Some (completedSignatures, partialSignatures) \<Rightarrow>
                       if length partialSignatures + length completedSignatures
                            < length (signatures signature)
                       then SIGNATURE_INVALID
                       else if length completedSignatures \<ge> minNotariesConfirm curDef
                       then SIGNATURE_COMPLETE
                       else if 0 < length completedSignatures \<or> 0 < length partialSignatures
                       then SIGNATURE_PARTIAL
                       else SIGNATURE_INVALID))
      else SIGNATURE_INVALID)"

section \<open>Validating notarization evidence\<close>

text \<open>
  What \<^verbatim>\<open>ValidateNotarizationEvidence\<close> calls beyond the above: the transaction index, the
  cache of currency definitions, and the deserializers of the three objects with the
  verdicts of their validity methods. \<open>of_blank\<close> is a default-constructed finalization.
\<close>

record ValidateEnv =
  venv :: VerifyEnv
  myGetTransaction :: "uint256 \<Rightarrow> CTransaction option"
  GetCachedCurrency :: "uint160 \<Rightarrow> CCurrencyDefinition"
  NotaryEvidence_FromVector :: "bytes \<Rightarrow> CNotaryEvidence"
  NotaryEvidence_IsValid :: "CNotaryEvidence \<Rightarrow> bool"
  Finalization_FromVector :: "bytes \<Rightarrow> CObjectFinalization"
  Finalization_IsValid :: "CObjectFinalization \<Rightarrow> bool"
  Notarization_FromVector :: "bytes \<Rightarrow> CPBaaSNotarization"
  Notarization_IsValid :: "CPBaaSNotarization \<Rightarrow> bool"
  of_blank :: CObjectFinalization

text \<open>
  Modelled from the spec: \<^verbatim>\<open>IsNotarizationFinalization\<close> is declared in a header that is
  not part of this file; a finalization is of a notarization or of an export.
\<close>

definition IsNotarizationFinalization :: "CObjectFinalization \<Rightarrow> bool" where
  "IsNotarizationFinalization f = (finalizationType f = FINALIZE_NOTARIZATION)"

text \<open>
  The conjuncts of lines 1977 to 1985, the hop from the evidence to the finalization it
  refers to, with the last conjunct \<^verbatim>\<open>of.output.hash.IsNull()\<close> of that chain: the value of
  \<open>of\<close> afterwards, and the parameters decoded when every conjunct holds.
\<close>

definition finalization_hop ::
  "ValidateEnv \<Rightarrow> CNotaryEvidence \<Rightarrow> CObjectFinalization \<times> COptCCParams option" where
  "finalization_hop env notarySig =
     (case myGetTransaction env (utxo_hash (ne_output notarySig)) of
        None \<Rightarrow> (of_blank env, None)
      | Some nTx \<Rightarrow>
          if \<not> length (vout nTx) > unat (utxo_n (ne_output notarySig)) then (of_blank env, None)
          else
            (case IsPayToCryptoCondition
                    (scriptPubKey (vout nTx ! unat (utxo_n (ne_output notarySig)))) of
               None \<Rightarrow> (of_blank env, None)
             | Some p \<Rightarrow>
                 if \<not> (ccp_IsValid p \<and> evalCode p = EVAL_FINALIZE_NOTARIZATION \<and> vData p \<noteq> [])
                 then (of_blank env, None)
                 else
                   (let f = Finalization_FromVector env (hd (vData p))
                    in if Finalization_IsValid env f \<and> IsNotarizationFinalization f \<and>
                          utxo_hash (of_output f) = 0
                       then (f, Some p) else (f, None))))"

text \<open>
  The conjuncts of lines 1985 to 1993, the hop from the finalization to the notarization:
  the decoded parameters and the notarization's transaction identifier when all hold.
\<close>

definition notarization_hop ::
  "ValidateEnv \<Rightarrow> CNotaryEvidence \<Rightarrow> CObjectFinalization \<Rightarrow> (COptCCParams \<times> uint256) option" where
  "notarization_hop env notarySig f =
     (case myGetTransaction env (utxo_hash (of_output f)) of
        None \<Rightarrow> None
      | Some nTx \<Rightarrow>
          if tx_hash nTx = 0 then None
          else if \<not> length (vout nTx) > unat (utxo_n (of_output f)) then None
          else
            (case IsPayToCryptoCondition (scriptPubKey (vout nTx ! unat (utxo_n (of_output f)))) of
               None \<Rightarrow> None
             | Some p \<Rightarrow>
                 if ccp_IsValid p \<and>
                    (evalCode p = EVAL_EARNEDNOTARIZATION \<or> evalCode p = EVAL_ACCEPTEDNOTARIZATION) \<and>
                    vData p \<noteq> [] \<and>
                    Notarization_IsValid env (Notarization_FromVector env (hd (vData p))) \<and>
                    map_count (systemID notarySig)
                      (proofRoots (Notarization_FromVector env (hd (vData p))))
                 then Some (p, tx_hash nTx) else None))"

text \<open>
  The condition of the \<^verbatim>\<open>if\<close> at line 1977 as C++ groups it. The conditional operator
  binds more loosely than \<^verbatim>\<open>&&\<close>, so the text reads
  \<^verbatim>\<open>A ? true : ((B && ... && of.output.hash.IsNull()) ? true : (C && ...))\<close>.
  The result, when the condition holds, is what the code below it reads: \<open>p\<close>, \<open>of\<close> and
  \<open>notarizationTxId\<close>.
\<close>

definition reference_chain ::
  "ValidateEnv \<Rightarrow> CNotaryEvidence \<Rightarrow> COptCCParams
     \<Rightarrow> (COptCCParams \<times> CObjectFinalization \<times> uint256) option" where
  "reference_chain env notarySig p =
     (if utxo_hash (ne_output notarySig) = 0 then Some (p, of_blank env, 0)
      else
        (case finalization_hop env notarySig of
           (f, Some pf) \<Rightarrow> Some (pf, f, 0)
         | (f, None) \<Rightarrow>
             (case notarization_hop env notarySig f of
                None \<Rightarrow> None
              | Some (pn, notarizationTxId) \<Rightarrow> Some (pn, f, notarizationTxId))))"

datatype validation = Valid | Error string | OutOfRange

text \<open>The loop over the raw signatures of one identity, lines 2034 to 2048.\<close>

fun validate_raw_signatures ::
  "(bytes \<Rightarrow> uint160) \<Rightarrow> uint160 list \<Rightarrow> bytes list \<Rightarrow> uint160 list \<Rightarrow> string + uint160 list" where
  "validate_raw_signatures recover idAddresses [] verifiedSignatures = Inr verifiedSignatures"
| "validate_raw_signatures recover idAddresses (oneSig # rest) verifiedSignatures =
     (let pkID = recover oneSig
      in if pkID \<notin> set idAddresses then Inl ''Mismatched pubkey and ID in signature''
         else if pkID \<in> set verifiedSignatures then Inl ''Duplicate key use in ID signature''
         else validate_raw_signatures recover idAddresses rest (List.insert pkID verifiedSignatures))"

text \<open>
  The loop over the authorized notaries, lines 2010 to 2067, over \<open>confirmedCount\<close>: the
  verdict and the count as the loop leaves it.
\<close>

fun validate_notaries ::
  "VerifyEnv \<Rightarrow> CNotaryEvidence \<Rightarrow> uint160 list \<Rightarrow> uint160 \<Rightarrow> uint32 \<Rightarrow> uint256
     \<Rightarrow> CIdentityID list \<Rightarrow> nat \<Rightarrow> validation \<times> nat" where
  "validate_notaries env notarySig vdxfCodes curID height msgHash [] confirmedCount =
     (Valid, confirmedCount)"
| "validate_notaries env notarySig vdxfCodes curID height msgHash (authorizedNotary # rest)
       confirmedCount =
     (case map_of (signatures notarySig) authorizedNotary of
        None \<Rightarrow> (Error ''Unauthorized notary'', confirmedCount)
      | Some oneIDSig \<Rightarrow>
          (let signer = LookupIdentity env authorizedNotary height;
               sigHash = IdentitySignatureHash env oneIDSig vdxfCodes [] curID height
                           authorizedNotary [] msgHash
           in if id_IsValid signer then
                (case collect_idAddresses (primaryAddresses signer) [] of
                   None \<Rightarrow> (Error ''Unsupported signature type'', confirmedCount)
                 | Some idAddresses \<Rightarrow>
                     (case validate_raw_signatures (RecoverCompactID env sigHash) idAddresses
                             (sig_signatures oneIDSig) [] of
                        Inl msg \<Rightarrow> (Error msg, confirmedCount)
                      | Inr verifiedSignatures \<Rightarrow>
                          if length verifiedSignatures \<ge> minSigs signer
                          then validate_notaries env notarySig vdxfCodes curID height msgHash rest
                                 (confirmedCount + 1)
                          else (Error (''Insufficient signatures on behalf of ID: '' @ id_name signer),
                                confirmedCount)))
              else (Error ''Invalid notary identity or corrupt local state'', confirmedCount)))"

text \<open>
  \<^verbatim>\<open>ValidateNotarizationEvidence\<close>: the verdict, \<open>confirmedCount\<close> and \<open>provenFalse\<close>.
  \<^verbatim>\<open>tx.vout[outNum]\<close> is read unchecked; an index beyond the outputs is \<open>OutOfRange\<close>.
\<close>

definition ValidateNotarizationEvidence ::
  "ValidateEnv \<Rightarrow> CTransaction \<Rightarrow> nat \<Rightarrow> uint32 \<Rightarrow> validation \<times> nat \<times> bool" where
  "ValidateNotarizationEvidence env tx outNum height =
     (if \<not> outNum < length (vout tx) then (OutOfRange, 0, False)
      else
        (case IsPayToCryptoCondition (scriptPubKey (vout tx ! outNum)) of
           None \<Rightarrow> (Error ''Invalid or non-evidence output'', 0, False)
         | Some p \<Rightarrow>
             if \<not> (ccp_IsValid p \<and> ccp_version p \<ge> VERSION_V3 \<and> vData p \<noteq> [] \<and>
                   NotaryEvidence_IsValid env (NotaryEvidence_FromVector env (hd (vData p))) \<and>
                   cd_IsValid (GetCachedCurrency env
                                 (systemID (NotaryEvidence_FromVector env (hd (vData p))))))
             then (Error ''Invalid or non-evidence output'', 0, False)
             else
               (let notarySig = NotaryEvidence_FromVector env (hd (vData p));
                    curDef = GetCachedCurrency env (systemID notarySig)
                in case reference_chain env notarySig p of
                     None \<Rightarrow> (Error ''Invalid notarization reference'', 0, False)
                   | Some (p', f, notarizationTxId) \<Rightarrow>
                       (let vdxfCodes = [GetConditionID (venv env) (systemID notarySig)
                                           (NotarySignatureKey (venv env)) notarizationTxId
                                           (utxo_n (of_output f))];
                            msgHash = HashBytes (venv env) (hd (vData p'))
                        in case validate_notaries (venv env) notarySig vdxfCodes (of_currencyID f)
                                  height msgHash (notaries curDef) 0 of
                             (Valid, confirmedCount) \<Rightarrow>
                               if confirmedCount = 0
                               then (Error ''No evidence present'', confirmedCount, False)
                               else (Valid, confirmedCount, False)
                           | (failure, confirmedCount) \<Rightarrow> (failure, confirmedCount, False)))))"


section \<open>Accepting an earned notarization\<close>

record CChainNotarizationData =
  cnd_version :: nat
  vtx :: "(CUTXORef \<times> CPBaaSNotarization) list"
  forks :: "int list list"
  lastConfirmed :: int
  bestChain :: int

text \<open>
  Modelled from the spec: \<^verbatim>\<open>CChainNotarizationData::IsConfirmed\<close> is declared in a header
  that is not part of this file. \<open>lastConfirmed\<close> is an index into \<open>vtx\<close>, and the data is
  confirmed when it is one.
\<close>

definition IsConfirmed :: "CChainNotarizationData \<Rightarrow> bool" where
  "IsConfirmed cnd = (0 \<le> lastConfirmed cnd \<and> lastConfirmed cnd < int (length (vtx cnd)))"

text \<open>
  The condition objects \<^verbatim>\<open>MakeMofNCCScript\<close> is given; the outputs of the transaction
  under construction are kept in this form, with their values.
\<close>

datatype CConditionObj =
    CondNotarization EvalCode "CTxDestination list" nat CPBaaSNotarization
  | CondEvidence EvalCode "CTxDestination list" nat CNotaryEvidence
  | CondFinalization EvalCode "CTxDestination list" nat CObjectFinalization

record TransactionBuilder =
  mtx_vin :: "(CUTXORef \<times> CScript \<times> int64) list"
  mtx_vout :: "(CConditionObj \<times> int64) list"

definition AddTransparentInput ::
  "CUTXORef \<Rightarrow> CScript \<Rightarrow> int64 \<Rightarrow> TransactionBuilder \<Rightarrow> TransactionBuilder" where
  "AddTransparentInput utxo script v txBuilder =
     txBuilder\<lparr>mtx_vin := mtx_vin txBuilder @ [(utxo, script, v)]\<rparr>"

definition AddTransparentOutput ::
  "CConditionObj \<Rightarrow> int64 \<Rightarrow> TransactionBuilder \<Rightarrow> TransactionBuilder" where
  "AddTransparentOutput obj v txBuilder =
     txBuilder\<lparr>mtx_vout := mtx_vout txBuilder @ [(obj, v)]\<rparr>"

text \<open>
  Modelled from the spec: the five-argument constructor of \<^verbatim>\<open>CObjectFinalization\<close> and
  \<^verbatim>\<open>SetConfirmed\<close> are declared in a header that is not part of this file. The
  constructor gives a pending finalization (neither confirmed nor rejected) of the given
  type, currency, output reference and height, with no evidence; \<^verbatim>\<open>SetConfirmed\<close> marks it
  CONFIRMED.
\<close>

definition CObjectFinalization_new ::
  "FinalizationType \<Rightarrow> uint160 \<Rightarrow> uint256 \<Rightarrow> uint32 \<Rightarrow> uint32 \<Rightarrow> CObjectFinalization" where
  "CObjectFinalization_new fType curID txid outNum height =
     \<lparr>of_version = VERSION_CURRENT, finalizationType = fType, of_confirmed = False,
      of_rejected = False, of_currencyID = curID,
      of_output = \<lparr>utxo_hash = txid, utxo_n = outNum\<rparr>, of_height = height,
      evidenceInputs = [], evidenceOutputs = []\<rparr>"

definition SetConfirmed :: "CObjectFinalization \<Rightarrow> CObjectFinalization" where
  "SetConfirmed f = f\<lparr>of_confirmed := True, of_rejected := False\<rparr>"

text \<open>
  One entry of the unspent address index, and what \<^verbatim>\<open>CreateAcceptedNotarization\<close> calls
  outside this file: the chain, the index and transaction lookups, the notarization
  history, the identity lookup and signature check, the hashes, the recorded currency
  states, and the public keys of the evaluation codes (\<^verbatim>\<open>CCinit\<close>).
\<close>

record CAddressUnspentKey =
  txhash :: uint256
  index :: nat

record AcceptEnv =
  ASSETCHAINS_CHAINID :: uint160
  VERUS_CHAINID :: uint160
  chainActive :: CChain
  mmrRoot :: "uint256 list \<Rightarrow> uint256"
  SetMirror :: "CPBaaSNotarization \<Rightarrow> bool \<times> CPBaaSNotarization"
  GetNotarizationData :: "uint160 \<Rightarrow> CChainNotarizationData option"
  HashNotarization :: "CPBaaSNotarization \<Rightarrow> uint256"
  LookupIdentityNow :: "CIdentityID \<Rightarrow> CIdentity"
  CheckSignature :: "CIdentitySignature \<Rightarrow> CIdentity \<Rightarrow> uint160 list \<Rightarrow> uint256 list \<Rightarrow> uint160
                       \<Rightarrow> string \<Rightarrow> uint256 \<Rightarrow> ESignatureVerification"
  ConfirmedKey :: uint160
  GetCurrencyState :: "uint160 \<Rightarrow> uint32 \<Rightarrow> CCoinbaseCurrencyState"
  HashCurrencyState :: "CCoinbaseCurrencyState \<Rightarrow> uint256"
  CachedCurrency :: "uint160 \<Rightarrow> CCurrencyDefinition"
  ThisChain :: CCurrencyDefinition
  GetAddressUnspent :: "uint160 \<Rightarrow> CAddressUnspentKey list option"
  NotarizationConditionID :: "uint160 \<Rightarrow> uint160"
  GetTransaction :: "uint256 \<Rightarrow> CTransaction option"
  FromVector_Notarization :: "bytes \<Rightarrow> CPBaaSNotarization \<Rightarrow> CPBaaSNotarization"
  IsValid_Notarization :: "CPBaaSNotarization \<Rightarrow> bool"
  blank_Notarization :: CPBaaSNotarization
  CCpubkey :: "EvalCode \<Rightarrow> CTxDestination"
  DEFAULT_OUTPUT_VALUE :: int64

text \<open>\<^verbatim>\<open>CPBaaSNotarization(const CScript &)\<close>, lines 162 to 176.\<close>

definition CPBaaSNotarization_of_script ::
  "(bytes \<Rightarrow> CPBaaSNotarization \<Rightarrow> CPBaaSNotarization) \<Rightarrow> CPBaaSNotarization \<Rightarrow> CScript
     \<Rightarrow> CPBaaSNotarization" where
  "CPBaaSNotarization_of_script FromVector blank script =
     (let this = member_init blank
      in case IsPayToCryptoCondition script of
           None \<Rightarrow> this
         | Some p \<Rightarrow>
             if ccp_IsValid p \<and>
                (evalCode p = EVAL_ACCEPTEDNOTARIZATION \<or> evalCode p = EVAL_EARNEDNOTARIZATION) \<and>
                vData p \<noteq> []
             then FromVector (hd (vData p)) this else this)"

datatype 'a outcome = Done 'a | Failed string | Undefined

text \<open>
  The loop of \<^verbatim>\<open>GetLastUnspentNotarization\<close>, lines 374 to 399, over the index entries from
  the last one back: the first entry whose transaction is found and whose output decodes
  to a valid notarization. \<^verbatim>\<open>oneTx.vout[it->first.index]\<close> is read unchecked, an index
  beyond the outputs is \<open>Undefined\<close>; \<open>Failed\<close> stands for the loop ending without a
  valid notarization.
\<close>

fun last_unspent_scan ::
  "AcceptEnv \<Rightarrow> CAddressUnspentKey list
     \<Rightarrow> (CPBaaSNotarization \<times> uint256 \<times> nat \<times> CTransaction) outcome" where
  "last_unspent_scan env [] = Failed []"
| "last_unspent_scan env (it # rest) =
     (case GetTransaction env (txhash it) of
        None \<Rightarrow> last_unspent_scan env rest
      | Some oneTx \<Rightarrow>
          if \<not> index it < length (vout oneTx) then Undefined
          else
            (let notarization = CPBaaSNotarization_of_script (FromVector_Notarization env)
                                  (blank_Notarization env) (scriptPubKey (vout oneTx ! index it))
             in if IsValid_Notarization env notarization
                then Done (notarization, txhash it, index it, oneTx)
                else last_unspent_scan env rest))"

definition GetLastUnspentNotarization ::
  "AcceptEnv \<Rightarrow> uint160 \<Rightarrow> (CPBaaSNotarization \<times> uint256 \<times> nat \<times> CTransaction) outcome" where
  "GetLastUnspentNotarization env curID =
     (case GetAddressUnspent env (NotarizationConditionID env curID) of
        None \<Rightarrow> Failed []
      | Some notarizationIndex \<Rightarrow> last_unspent_scan env (rev notarizationIndex))"

text \<open>
  \<^verbatim>\<open>std::map::operator[]\<close> on the proof roots: the entry of the key, inserted as a
  default-constructed root when the key is absent.
\<close>

definition proofRoots_at :: "uint160 \<Rightarrow> (uint160 \<times> CProofRoot) list \<Rightarrow> CProofRoot \<times> (uint160 \<times> CProofRoot) list" where
  "proofRoots_at k m =
     (case map_of m k of
        Some r \<Rightarrow> (r, m)
      | None \<Rightarrow> (CProofRoot_empty, insort_key fst (k, CProofRoot_empty) m))"

definition errorPrefix :: string where
  "errorPrefix = ''CreateAcceptedNotarization: ''"

text \<open>The loop over the signatures of the evidence, lines 783 to 804.\<close>

fun check_notary_signatures ::
  "AcceptEnv \<Rightarrow> CIdentityID list \<Rightarrow> uint160 \<Rightarrow> uint256 \<Rightarrow> (CIdentityID \<times> CIdentitySignature) list
     \<Rightarrow> string option" where
  "check_notary_signatures env notarySet SystemID objHash [] = None"
| "check_notary_signatures env notarySet SystemID objHash (oneSig # rest) =
     (if fst oneSig \<notin> set notarySet then Some (errorPrefix @ ''unauthorized notary signature'')
      else if \<not> id_IsValidUnrevoked (LookupIdentityNow env (fst oneSig))
      then Some (errorPrefix @ ''invalid notary identity'')
      else if CheckSignature env (snd oneSig) (LookupIdentityNow env (fst oneSig))
                [ConfirmedKey env] [] SystemID [] objHash \<noteq> SIGNATURE_COMPLETE
      then Some (errorPrefix @ ''invalid or incomplete notary signature'')
      else check_notary_signatures env notarySet SystemID objHash rest)"

text \<open>
  The loop over the currency states of the new notarization, lines 835 to 870. The message
  of an invalid state is kept without the two states the code prints after it.
\<close>

fun check_currencyStates ::
  "AcceptEnv \<Rightarrow> uint160 \<Rightarrow> uint32 \<Rightarrow> (uint160 \<times> CCoinbaseCurrencyState) list \<Rightarrow> string option" where
  "check_currencyStates env SystemID h [] = None"
| "check_currencyStates env SystemID h (oneCur # rest) =
     (if fst oneCur = SystemID then check_currencyStates env SystemID h rest
      else if fst oneCur \<noteq> ASSETCHAINS_CHAINID env then
        (if \<not> cd_IsValid (CachedCurrency env (fst oneCur))
         then Some (errorPrefix @ ''all currencies in accepted notarizatoin must be registered on this chain'')
         else if cd_systemID (CachedCurrency env (fst oneCur)) \<noteq> ASSETCHAINS_CHAINID env
         then check_currencyStates env SystemID h rest
         else if \<not> cs_IsValid (GetCurrencyState env (fst oneCur) h) \<or>
                 HashCurrencyState env (GetCurrencyState env (fst oneCur) h)
                   \<noteq> HashCurrencyState env (snd oneCur)
         then Some (errorPrefix @ ''currecy state is invalid in accepted notarization.'')
         else check_currencyStates env SystemID h rest)
      else Some (errorPrefix @ ''cannot accept redundant currency state in notarization for ''
                   @ cd_name (ThisChain env)))"

text \<open>The loop over the proof roots of the new notarization, lines 871 to 894.\<close>

fun check_proofRoots ::
  "AcceptEnv \<Rightarrow> uint160 \<Rightarrow> (uint160 \<times> CProofRoot) list \<Rightarrow> string option" where
  "check_proofRoots env SystemID [] = None"
| "check_proofRoots env SystemID (oneRoot # rest) =
     (if fst oneRoot = SystemID then check_proofRoots env SystemID rest
      else if \<not> cd_IsValid (CachedCurrency env (fst oneRoot))
      then Some (errorPrefix @ ''all currencies in accepted notarizatoin must be registered on this chain'')
      else if cd_GetID (CachedCurrency env (fst oneRoot)) \<noteq> ASSETCHAINS_CHAINID env \<and>
              cd_systemID (CachedCurrency env (fst oneRoot)) = ASSETCHAINS_CHAINID env
      then Some (errorPrefix @ ''proof roots are not accepted for token currencies'')
      else check_proofRoots env SystemID rest)"

text \<open>
  The outputs added from line 909 on, once every check has passed: the spend of the prior
  notarization, the accepted notarization, the evidence and, unless the protocol is
  \<^verbatim>\<open>NOTARIZATION_NOTARY_CHAINID\<close>, the finalization.
\<close>

definition accepted_outputs ::
  "AcceptEnv \<Rightarrow> CCurrencyDefinition \<Rightarrow> CPBaaSNotarization \<Rightarrow> CNotaryEvidence \<Rightarrow> uint32
     \<Rightarrow> CUTXORef \<Rightarrow> CTxOut \<Rightarrow> TransactionBuilder \<Rightarrow> TransactionBuilder" where
  "accepted_outputs env externalSystem newNotarization notaryEvidence height lastRef lastOut txBuilder =
     (let tb1 = AddTransparentInput lastRef (scriptPubKey lastOut) (nValue lastOut) txBuilder;
          dests = (if notarizationProtocol externalSystem = NOTARIZATION_NOTARY_CHAINID
                   then [\<lparr>which = ADDRTYPE_ID, GetDestinationID = cd_GetID externalSystem\<rparr>]
                   else [CCpubkey env EVAL_ACCEPTEDNOTARIZATION]);
          tb2 = AddTransparentOutput
                  (CondNotarization EVAL_ACCEPTEDNOTARIZATION dests 1 newNotarization) 0 tb1;
          tb3 = AddTransparentOutput
                  (CondEvidence EVAL_NOTARY_EVIDENCE [CCpubkey env EVAL_NOTARY_EVIDENCE] 1 notaryEvidence)
                  (DEFAULT_OUTPUT_VALUE env) tb2
      in if notarizationProtocol externalSystem \<noteq> NOTARIZATION_NOTARY_CHAINID then
           (let f0 = CObjectFinalization_new FINALIZE_NOTARIZATION (VERUS_CHAINID env) 0
                       (of_nat (length (mtx_vout tb3))) (height + 15);
                f = (if length (signatures notaryEvidence) \<ge> length (notaries externalSystem)
                     then (SetConfirmed f0)\<lparr>evidenceOutputs :=
                             evidenceOutputs f0 @ [length (mtx_vout tb3) - 1]\<rparr>
                     else f0)
            in AddTransparentOutput
                 (CondFinalization EVAL_FINALIZE_NOTARIZATION
                    [CCpubkey env EVAL_FINALIZE_NOTARIZATION] 1 f) 0 tb3)
         else tb3)"

text \<open>
  The condition of lines 772 to 774: the history has no confirmed notarization, or that one
  has no proof root of this chain, or the submitted root of this chain is not later.
\<close>

definition not_later_than_confirmed ::
  "AcceptEnv \<Rightarrow> CChainNotarizationData \<Rightarrow> CProofRoot \<Rightarrow> bool" where
  "not_later_than_confirmed env cnd ourRoot =
     (\<not> IsConfirmed cnd \<or>
      \<not> map_count (ASSETCHAINS_CHAINID env)
          (proofRoots (snd (vtx cnd ! nat (lastConfirmed cnd)))) \<or>
      rootHeight ourRoot \<le>
        rootHeight (the (map_of (proofRoots (snd (vtx cnd ! nat (lastConfirmed cnd))))
                           (ASSETCHAINS_CHAINID env))))"

text \<open>
  The first four disjuncts of lines 811 to 814, which do not read the chain at the root's
  height, and the last three of lines 815 to 817, read with the block \<open>b\<close> at that height.
\<close>

definition root_missing_or_ahead ::
  "AcceptEnv \<Rightarrow> uint160 \<Rightarrow> CPBaaSNotarization \<Rightarrow> CProofRoot \<Rightarrow> uint32 \<Rightarrow> bool" where
  "root_missing_or_ahead env SystemID newN ourRoot height =
     (\<not> map_count SystemID (proofRoots newN) \<or>
      \<not> map_count (ASSETCHAINS_CHAINID env) (proofRoots newN) \<or>
      \<not> pr_IsValid ourRoot \<or>
      rootHeight ourRoot > height)"

definition root_mismatch :: "AcceptEnv \<Rightarrow> CProofRoot \<Rightarrow> CBlockIndex \<Rightarrow> bool" where
  "root_mismatch env ourRoot b =
     (blockHash ourRoot \<noteq> GetBlockHash b \<or>
      stateRoot ourRoot \<noteq>
        mmrRoot env (mmv_resize (unat (rootHeight ourRoot)) (GetMMV (chainActive env))) \<or>
      (pr_type ourRoot \<noteq> TYPE_PBAAS \<and> pr_type ourRoot \<noteq> TYPE_ETHEREUM))"

text \<open>The condition of lines 824 and 825 on the currency state of this chain.\<close>

definition own_state_mismatch :: "AcceptEnv \<Rightarrow> CPBaaSNotarization \<Rightarrow> CProofRoot \<Rightarrow> bool" where
  "own_state_mismatch env earnedNotarization ourRoot =
     (\<not> cs_IsValid (GetCurrencyState env (ASSETCHAINS_CHAINID env) (rootHeight ourRoot)) \<or>
      HashCurrencyState env (GetCurrencyState env (ASSETCHAINS_CHAINID env) (rootHeight ourRoot))
        \<noteq> HashCurrencyState env (currencyState earnedNotarization))"

text \<open>
  \<^verbatim>\<open>CPBaaSNotarization::CreateAcceptedNotarization\<close>: the verdict (\<open>Done\<close> for
  \<^verbatim>\<open>true\<close>, \<open>Failed\<close> with the message of \<^verbatim>\<open>state.Error\<close>) and the transaction builder
  after the call. Reading the block index of a height without a block, or an output beyond
  those of the prior transaction, is \<open>Undefined\<close>.
\<close>

definition CreateAcceptedNotarization ::
  "AcceptEnv \<Rightarrow> CCurrencyDefinition \<Rightarrow> CPBaaSNotarization \<Rightarrow> CNotaryEvidence \<Rightarrow> TransactionBuilder
     \<Rightarrow> unit outcome \<times> TransactionBuilder" where
  "CreateAcceptedNotarization env externalSystem earnedNotarization notaryEvidence txBuilder =
     (if signatures notaryEvidence = []
      then (Failed (errorPrefix @ ''insufficient notary evidence required to accept notarization''), txBuilder)
      else if isMirror earnedNotarization \<or> \<not> fst (SetMirror env earnedNotarization)
      then (Failed (errorPrefix @ ''invalid earned notarization''), txBuilder)
      else
        (let mirrored = snd (SetMirror env earnedNotarization);
             SystemID = cd_GetID externalSystem;
             height = (word_of_int (Height (chainActive env)) :: uint32);
             ourRoot = fst (proofRoots_at (ASSETCHAINS_CHAINID env) (proofRoots mirrored));
             newNotarization = mirrored\<lparr>proofRoots :=
                                 snd (proofRoots_at (ASSETCHAINS_CHAINID env) (proofRoots mirrored))\<rparr>
         in case GetNotarizationData env SystemID of
              None \<Rightarrow> (Failed (errorPrefix @ ''cannot locate notarization history''), txBuilder)
            | Some cnd \<Rightarrow>
                if not_later_than_confirmed env cnd ourRoot
                then (Failed (errorPrefix @
                        ''earned notarization proof root is not later than prior confirmed for this chain''),
                      txBuilder)
                else
                  (case check_notary_signatures env (notaries externalSystem) SystemID
                          (HashNotarization env earnedNotarization) (signatures notaryEvidence) of
                     Some msg \<Rightarrow> (Failed msg, txBuilder)
                   | None \<Rightarrow>
                       if root_missing_or_ahead env SystemID newNotarization ourRoot height
                       then (Failed (errorPrefix @
                               ''can only create accepted notarization from notarization with valid proof root of this chain''),
                             txBuilder)
                       else
                         (case block_at (chainActive env) (unat (rootHeight ourRoot)) of
                            None \<Rightarrow> (Undefined, txBuilder)
                          | Some b \<Rightarrow>
                              if root_mismatch env ourRoot b
                              then (Failed (errorPrefix @
                                      ''can only create accepted notarization from notarization with valid proof root of this chain''),
                                    txBuilder)
                              else if own_state_mismatch env earnedNotarization ourRoot
                              then (Failed (errorPrefix @
                                      ''currecy state is invalid in accepted notarization.''), txBuilder)
                              else
                                (case check_currencyStates env SystemID (rootHeight ourRoot)
                                        (currencyStates newNotarization) of
                                   Some msg \<Rightarrow> (Failed msg, txBuilder)
                                 | None \<Rightarrow>
                                     (case check_proofRoots env SystemID (proofRoots newNotarization) of
                                        Some msg \<Rightarrow> (Failed msg, txBuilder)
                                      | None \<Rightarrow>
                                          (case GetLastUnspentNotarization env SystemID of
                                             Failed msg \<Rightarrow>
                                               (Failed (errorPrefix @ ''invalid prior notarization''),
                                                txBuilder)
                                           | Undefined \<Rightarrow> (Undefined, txBuilder)
                                           | Done (lastUnspent, lastTxId, lastTxOutNum, lastTx) \<Rightarrow>
                                               (Done (),
                                                accepted_outputs env externalSystem newNotarization
                                                  notaryEvidence height
                                                  \<lparr>utxo_hash = lastTxId, utxo_n = of_nat lastTxOutNum\<rparr>
                                                  (vout lastTx ! lastTxOutNum) txBuilder))))))))"

section \<open>The next notarization of a currency\<close>

text \<open>
  A \<^verbatim>\<open>CCurrencyValueMap\<close> holds a \<^verbatim>\<open>std::map\<close> from currency to amount; its
  constructor from two vectors, its arithmetic, its comparisons and \<^verbatim>\<open>CanonicalMap\<close> are
  defined in another file and are parameters below.
\<close>

type_synonym CCurrencyValueMap = "(uint160 \<times> int64) list"

text \<open>
  What \<^verbatim>\<open>NextNotarizationInfo\<close> calls outside this file, for reserve transfers of type
  \<^typ>\<open>'rt\<close>: the tests and accessors of a transfer and its refund form, the conversion fee,
  the operations on value maps, \<^verbatim>\<open>RevertReservesAndSupply\<close>, the two hashes, the cached
  currency definitions, and the import engine \<^verbatim>\<open>AddReserveTransferImportOutputs\<close>. The
  engine is given the source system, the destination system, the destination currency,
  the currency state, the transfers, and the current values of the import outputs, the
  imported currency, the gateway deposits used, the spent currency and the new state; it
  returns its verdict and the new values of the last five.
\<close>

record 'rt ImportEnv =
  IsPreConversion :: "'rt \<Rightarrow> bool"
  IsConversion :: "'rt \<Rightarrow> bool"
  FirstCurrency :: "'rt \<Rightarrow> uint160"
  FirstValue :: "'rt \<Rightarrow> int64"
  GetRefundTransfer :: "'rt \<Rightarrow> 'rt"
  CalculateConversionFee :: "int64 \<Rightarrow> int64"
  ValueMap :: "uint160 list \<Rightarrow> int64 list \<Rightarrow> CCurrencyValueMap"
  vm_plus :: "CCurrencyValueMap \<Rightarrow> CCurrencyValueMap \<Rightarrow> CCurrencyValueMap"
  vm_less :: "CCurrencyValueMap \<Rightarrow> CCurrencyValueMap \<Rightarrow> bool"
  vm_greater :: "CCurrencyValueMap \<Rightarrow> CCurrencyValueMap \<Rightarrow> bool"
  CanonicalMap :: "CCurrencyValueMap \<Rightarrow> CCurrencyValueMap"
  RevertReservesAndSupply :: "CCoinbaseCurrencyState \<Rightarrow> CCoinbaseCurrencyState"
  HashObject :: "CPBaaSNotarization \<Rightarrow> uint256"
  HashTransfers :: "'rt list \<Rightarrow> uint256"
  CUTXORef_null :: CUTXORef
  ie_ASSETCHAINS_CHAINID :: uint160
  ie_GetCachedCurrency :: "uint160 \<Rightarrow> CCurrencyDefinition"
  ie_ThisChain :: CCurrencyDefinition
  AddReserveTransferImportOutputs ::
    "CCurrencyDefinition \<Rightarrow> CCurrencyDefinition \<Rightarrow> CCurrencyDefinition \<Rightarrow> CCoinbaseCurrencyState
       \<Rightarrow> 'rt list \<Rightarrow> CTxOut list \<Rightarrow> CCurrencyValueMap \<Rightarrow> CCurrencyValueMap \<Rightarrow> CCurrencyValueMap
       \<Rightarrow> CCoinbaseCurrencyState
       \<Rightarrow> bool \<times> CTxOut list \<times> CCurrencyValueMap \<times> CCurrencyValueMap \<times> CCurrencyValueMap
           \<times> CCoinbaseCurrencyState"

text \<open>
  The values \<^verbatim>\<open>NextNotarizationInfo\<close> returns and writes through its reference
  parameters.
\<close>

record 'rt NextInfo =
  retVal :: bool
  exportTransfers :: "'rt list"
  transferHash :: uint256
  newNotarization :: CPBaaSNotarization
  importOutputs :: "CTxOut list"
  importedCurrency :: CCurrencyValueMap
  gatewayDepositsUsed :: CCurrencyValueMap
  spentCurrencyOut :: CCurrencyValueMap

text \<open>Lines 418 to 426: the new notarization as a successor of this one.\<close>

definition successor :: "'rt ImportEnv \<Rightarrow> CPBaaSNotarization \<Rightarrow> uint32 \<Rightarrow> CPBaaSNotarization" where
  "successor env this currentHeight =
     this\<lparr>isDefinition := False,
          prevNotarization := CUTXORef_null env,
          prevHeight := notarizationHeight this,
          notarizationHeight := currentHeight,
          hashPrevNotarization := HashObject env this\<rparr>"

text \<open>
  The body of the loop over the export transfers, lines 445 to 474: the transfer as the
  loop leaves it in the vector. The loop does not change the new notarization.
\<close>

definition refund_check ::
  "'rt ImportEnv \<Rightarrow> CCurrencyDefinition \<Rightarrow> uint32 \<Rightarrow> CPBaaSNotarization \<Rightarrow> 'rt \<Rightarrow> 'rt" where
  "refund_check env destCurrency lastExportHeight newN reserveTransfer =
     (if IsPreConversion env reserveTransfer then
        (if lastExportHeight \<ge> startBlock destCurrency then GetRefundTransfer env reserveTransfer
         else
           (let newReserveIn = ValueMap env [FirstCurrency env reserveTransfer]
                                 [FirstValue env reserveTransfer
                                    - CalculateConversionFee env (FirstValue env reserveTransfer)];
                newTotalReserves = vm_plus env
                                     (ValueMap env (currencies destCurrency)
                                        (reserves (currencyState newN)))
                                     newReserveIn
            in if maxPreconvert destCurrency \<noteq> [] \<and>
                  vm_greater env newTotalReserves
                    (ValueMap env (currencies destCurrency) (maxPreconvert destCurrency))
               then GetRefundTransfer env reserveTransfer
               else reserveTransfer))
      else if IsConversion env reserveTransfer then
        (if \<not> cs_launchCompleteMarker (currencyState newN)
         then GetRefundTransfer env reserveTransfer
         else reserveTransfer)
      else reserveTransfer)"

text \<open>
  Lines 513 to 516: the canonical map of the minimum pre-conversions when the currency has
  one for each of its currencies, the default-constructed empty map otherwise.
\<close>

definition minPreMap_of :: "'rt ImportEnv \<Rightarrow> CCurrencyDefinition \<Rightarrow> CCurrencyValueMap" where
  "minPreMap_of env destCurrency =
     (if minPreconvert destCurrency \<noteq> [] \<and>
         length (minPreconvert destCurrency) = length (currencies destCurrency)
      then CanonicalMap env (ValueMap env (currencies destCurrency) (minPreconvert destCurrency))
      else [])"

text \<open>
  Lines 503 to 530, the first time through at the height before the start block: the launch
  is cleared and the currency either refunds or has its launch confirmed.
\<close>

definition launch_clear ::
  "'rt ImportEnv \<Rightarrow> CCurrencyDefinition \<Rightarrow> CPBaaSNotarization \<Rightarrow> CPBaaSNotarization" where
  "launch_clear env destCurrency newN =
     (let cleared = (RevertReservesAndSupply env ((currencyState newN)\<lparr>cs_launchClear := True\<rparr>))
                      \<lparr>cs_prelaunch := False\<rparr>;
          preConvertedMap = CanonicalMap env
                              (ValueMap env (currencies destCurrency) (reserves cleared));
          minPreMap = minPreMap_of env destCurrency
      in if minPreMap \<noteq> [] \<and> vm_less env preConvertedMap minPreMap
         then newN\<lparr>launchCleared := True,
                   currencyState := cleared\<lparr>cs_supply := 0, cs_refunding := True\<rparr>,
                   refunding := True\<rparr>
         else newN\<lparr>launchCleared := True,
                   currencyState := cleared\<lparr>cs_launchConfirmed := True\<rparr>,
                   launchConfirmed := True\<rparr>)"

text \<open>
  Lines 544: the contributions are taken off the reserves, one index at a time from \<open>i\<close>.
  The code reads and writes \<^verbatim>\<open>reserves[i]\<close> unchecked; an index beyond the reserves is
  left out here.
\<close>

fun remove_contributions :: "int64 list \<Rightarrow> nat \<Rightarrow> int64 list \<Rightarrow> int64 list" where
  "remove_contributions [] i rs = rs"
| "remove_contributions (c # cs) i rs = remove_contributions cs (i + 1) (rs[i := rs ! i - c])"

text \<open>
  Lines 491 to 548: what the branch of a launch from the source system does to the new
  notarization before it calls the import engine.
\<close>

definition launch_phase ::
  "'rt ImportEnv \<Rightarrow> CCurrencyDefinition \<Rightarrow> CPBaaSNotarization \<Rightarrow> uint32 \<Rightarrow> CPBaaSNotarization
     \<Rightarrow> CPBaaSNotarization" where
  "launch_phase env destCurrency this currentHeight newN =
     (if currentHeight = startBlock destCurrency - 1 \<and> preLaunch newN then
        (if launchCleared newN then
           newN\<lparr>preLaunch := False,
                currencyState :=
                  (RevertReservesAndSupply env ((currencyState newN)\<lparr>cs_launchClear := True\<rparr>))
                    \<lparr>cs_prelaunch := False\<rparr>\<rparr>
         else launch_clear env destCurrency newN)
      else if currentHeight < startBlock destCurrency - 1 then
        (if isDefinition this then
           newN\<lparr>currencyState := (currencyState newN)
                  \<lparr>cs_prelaunch := True,
                   reserves := remove_contributions (contributions destCurrency) 0
                                 (reserves (currencyState newN))\<rparr>\<rparr>
         else newN\<lparr>currencyState := (currencyState newN)\<lparr>cs_prelaunch := True\<rparr>\<rparr>)
      else newN)"

text \<open>
  \<^verbatim>\<open>CPBaaSNotarization::NextNotarizationInfo\<close>. \<open>io\<close> holds the values of the reference
  parameters before the call. The heights are unsigned 32-bit values, so
  \<^verbatim>\<open>startBlock - 1\<close> wraps around at a start block of 0.
\<close>

definition NextNotarizationInfo ::
  "'rt ImportEnv \<Rightarrow> CPBaaSNotarization \<Rightarrow> CCurrencyDefinition \<Rightarrow> CCurrencyDefinition \<Rightarrow> uint32
     \<Rightarrow> uint32 \<Rightarrow> 'rt NextInfo \<Rightarrow> 'rt NextInfo" where
  "NextNotarizationInfo env this sourceSystem destCurrency lastExportHeight currentHeight io =
     (let newN = successor env this currentHeight
      in if cs_refunding (currencyState this)
         then io\<lparr>retVal := True, newNotarization := newN\<rparr>
         else
           (let transfers = map (refund_check env destCurrency lastExportHeight newN)
                              (exportTransfers io);
                tHash = (if exportTransfers io \<noteq> [] then HashTransfers env (exportTransfers io)
                         else transferHash io)
            in if launchSystemID destCurrency = cd_GetID sourceSystem \<and>
                  currentHeight \<le> startBlock destCurrency - 1
               then
                 (let newN1 = launch_phase env destCurrency this currentHeight newN;
                      destSystem = ie_GetCachedCurrency env (cd_systemID destCurrency)
                  in case AddReserveTransferImportOutputs env sourceSystem destSystem destCurrency
                            (currencyState newN1) transfers (importOutputs io) (importedCurrency io)
                            (gatewayDepositsUsed io) (spentCurrencyOut io) (currencyState newN1) of
                       (ok, outs, imported, deposits, spent, tempState) \<Rightarrow>
                         \<lparr>retVal = ok, exportTransfers = transfers, transferHash = tHash,
                          newNotarization = newN1\<lparr>currencyState := tempState\<rparr>,
                          importOutputs = outs, importedCurrency = imported,
                          gatewayDepositsUsed = deposits, spentCurrencyOut = spent\<rparr>)
               else
                 (let newN1 = newN\<lparr>currencyState := (currencyState newN)
                                      \<lparr>cs_launchCompleteMarker := True, cs_launchClear := False\<rparr>,
                                    sameChain := (if cd_systemID destCurrency
                                                       \<noteq> ie_ASSETCHAINS_CHAINID env
                                                  then False else sameChain newN)\<rparr>
                  in case AddReserveTransferImportOutputs env sourceSystem (ie_ThisChain env)
                            destCurrency (currencyState this) transfers [] (importedCurrency io)
                            (gatewayDepositsUsed io) (spentCurrencyOut io) (currencyState newN1) of
                       (isValidExport, dummyOuts, imported, deposits, spent, state1) \<Rightarrow>
                         if \<not> cs_prelaunch state1 \<and> isValidExport \<and> cd_IsFractional destCurrency
                         then
                           (let tempCurState = (currencyState this)
                                  \<lparr>conversionPrice := conversionPrice state1,
                                   viaConversionPrice := viaConversionPrice state1\<rparr>
                            in case AddReserveTransferImportOutputs env sourceSystem (ie_ThisChain env)
                                      destCurrency tempCurState transfers (importOutputs io) [] []
                                      spent state1 of
                                 (isValidExport2, outs, imported2, deposits2, spent2, state2) \<Rightarrow>
                                   \<lparr>retVal = isValidExport2, exportTransfers = transfers,
                                    transferHash = tHash,
                                    newNotarization = newN1\<lparr>currencyState :=
                                      (if isValidExport2
                                       then state2\<lparr>conversionPrice := conversionPrice tempCurState,
                                                   viaConversionPrice := viaConversionPrice tempCurState\<rparr>
                                       else state2)\<rparr>,
                                    importOutputs = outs, importedCurrency = imported2,
                                    gatewayDepositsUsed = deposits2, spentCurrencyOut = spent2\<rparr>)
                         else
                           \<lparr>retVal = isValidExport, exportTransfers = transfers, transferHash = tHash,
                            newNotarization = newN1\<lparr>currencyState := state1\<rparr>,
                            importOutputs = importOutputs io, importedCurrency = imported,
                            gatewayDepositsUsed = deposits, spentCurrencyOut = spent\<rparr>)))"

text \<open>
  Modelled from the spec: \<^verbatim>\<open>GetRefundTransfer\<close> and the import engine, which settle what a
  transfer adds to the reserves and what goes back to its sender, are not part of this
  file. The spec says of the refund form of a transfer that it contributes 0 to the
  reserves and that the full value is returned to the sender. For two measures of a
  transfer, its contribution to the reserves and the amount returned to its sender,
  \<open>refund_contract\<close> says so of every refund form.
\<close>

definition refund_contract :: "'rt ImportEnv \<Rightarrow> ('rt \<Rightarrow> int64) \<Rightarrow> ('rt \<Rightarrow> int64) \<Rightarrow> bool" where
  "refund_contract env contributes returned =
     (\<forall>t. contributes (GetRefundTransfer env t) = 0 \<and>
          returned (GetRefundTransfer env t) = FirstValue env t)"

section \<open>Example objects\<close>

text \<open>
  Concrete objects on which the theorems below are evaluated: identity 5 is a notary,
  identity 9 is not, the key store is the unit value.
\<close>

definition ex_signature :: CIdentitySignature where
  "ex_signature = \<lparr>sig_version = 1, sig_blockHeight = 10, sig_signatures = [[1]]\<rparr>"

definition ex_params :: COptCCParams where
  "ex_params = \<lparr>ccp_IsValid = True, ccp_version = 3, evalCode = EVAL_EARNEDNOTARIZATION,
                 vData = [[1]]\<rparr>"

definition ex_tx :: CTransaction where
  "ex_tx = \<lparr>tx_hash = 7, vout = [\<lparr>scriptPubKey = PayToCryptoCondition ex_params, nValue = 0\<rparr>]\<rparr>"

definition ex_evidence :: "bool \<Rightarrow> (CIdentityID \<times> CIdentitySignature) list \<Rightarrow> CNotaryEvidence" where
  "ex_evidence polarity sigs =
     \<lparr>ne_version = 1, ne_type = 1, systemID = 1, ne_output = \<lparr>utxo_hash = 7, utxo_n = 0\<rparr>,
      confirmed = polarity, signatures = sigs, evidence = []\<rparr>"

definition ex_identity :: "CTxDestination list \<Rightarrow> nat \<Rightarrow> CIdentity" where
  "ex_identity addresses m =
     \<lparr>id_IsValid = True, id_IsValidUnrevoked = True, id_name = ''notary'',
      primaryAddresses = addresses, minSigs = m\<rparr>"

text \<open>
  A key store that does not hold the identity asked for: \<open>GetIdentity\<close> fails and leaves a
  key that cannot sign and an empty, invalid identity. \<open>NewSignature\<close> answers with a given
  verdict and signature.
\<close>

definition ex_SignEnv :: "ESignatureVerification \<Rightarrow> CIdentitySignature \<Rightarrow> unit SignEnv" where
  "ex_SignEnv verdict sg =
     \<lparr>GetIdentity = (\<lambda>keyStore idID h.
                       (False, \<lparr>key_idID = 0, key_blockHeight = 0, CanSign = False\<rparr>,
                        \<lparr>id_IsValid = False, id_IsValidUnrevoked = False, id_name = [],
                         primaryAddresses = [], minSigs = 0\<rparr>)),
      NewSignature = (\<lambda>identity codes statements sysID h prefix msgHash keyStore. (verdict, sg)),
      HashWriter = (\<lambda>data. 0),
      NotaryConfirmedKey = 1,
      NotaryRejectedKey = 2\<rparr>"

definition ex_state :: CCoinbaseCurrencyState where
  "ex_state =
     \<lparr>cs_IsValid = True, cs_prelaunch = True, cs_refunding = False, cs_launchClear = False,
      cs_launchConfirmed = False, cs_launchCompleteMarker = False, cs_supply = 1000,
      reserves = [900], conversionPrice = [1], viaConversionPrice = [1]\<rparr>"

definition ex_notarization :: "(uint160 \<times> CProofRoot) list \<Rightarrow> CPBaaSNotarization" where
  "ex_notarization roots =
     \<lparr>nVersion = 1, isDefinition = False, isBlockOneNotarization = False, preLaunch = True,
      launchCleared = False, refunding = False, launchConfirmed = False, isMirror = False,
      sameChain = False, currencyID = 2, proposer = 0, notarizationHeight = 1,
      currencyState = ex_state, prevNotarization = \<lparr>utxo_hash = 0, utxo_n = 0\<rparr>,
      hashPrevNotarization = 0, prevHeight = 0, currencyStates = [], proofRoots = roots,
      nodes = []\<rparr>"

definition ex_finalization :: CObjectFinalization where
  "ex_finalization = CObjectFinalization_new FINALIZE_NOTARIZATION 1 7 0 10"

definition ex_output :: "EvalCode \<Rightarrow> CTxOut" where
  "ex_output code =
     \<lparr>scriptPubKey = PayToCryptoCondition (ex_params\<lparr>evalCode := code\<rparr>), nValue = 0\<rparr>"

text \<open>A transaction with two notarization outputs and two finalization outputs.\<close>

definition ex_double_tx :: CTransaction where
  "ex_double_tx =
     \<lparr>tx_hash = 8,
      vout = [ex_output EVAL_EARNEDNOTARIZATION, ex_output EVAL_ACCEPTEDNOTARIZATION,
              ex_output EVAL_FINALIZE_NOTARIZATION, ex_output EVAL_FINALIZE_EXPORT]\<rparr>"

text \<open>An active chain of three blocks, heights 0 to 2.\<close>

definition ex_chain :: CChain where
  "ex_chain =
     [\<lparr>GetBlockHash = 100, CompactChainPower = 1, mmr_leaf = 10\<rparr>,
      \<lparr>GetBlockHash = 101, CompactChainPower = 2, mmr_leaf = 11\<rparr>,
      \<lparr>GetBlockHash = 102, CompactChainPower = 3, mmr_leaf = 12\<rparr>]"

definition ex_currency :: "CIdentityID list \<Rightarrow> nat \<Rightarrow> NotarizationProtocol \<Rightarrow> CCurrencyDefinition" where
  "ex_currency notaryIDs threshold protocol =
     \<lparr>cd_IsValid = True, cd_IsFractional = False, cd_GetID = 2, cd_name = ''peer'',
      cd_systemID = 2, launchSystemID = 1, startBlock = 100, notaries = notaryIDs,
      minNotariesConfirm = threshold, notarizationProtocol = protocol, currencies = [3],
      minPreconvert = [1000], maxPreconvert = [], contributions = []\<rparr>"

text \<open>
  A verification environment in which every identity looked up is \<open>signer\<close> and every raw
  signature recovers to the address 161.
\<close>

definition ex_VerifyEnv :: "CIdentity \<Rightarrow> CIdentityID list \<Rightarrow> VerifyEnv" where
  "ex_VerifyEnv signer notaryIDs =
     \<lparr>GetCurrencyDefinition = (\<lambda>curID. Some (ex_currency notaryIDs 1 NOTARIZATION_AUTO)),
      LookupIdentity = (\<lambda>idID h. signer),
      IdentitySignatureHash = (\<lambda>sg codes statements sysID h idID prefix msgHash. msgHash),
      RecoverCompactID = (\<lambda>sigHash sg. 161),
      GetConditionID = (\<lambda>curID key txid outNum. key),
      NotarySignatureKey = 3,
      HashBytes = (\<lambda>data. 0)\<rparr>"

definition ex_pkh_address :: CTxDestination where
  "ex_pkh_address = \<lparr>which = ADDRTYPE_PKH, GetDestinationID = 161\<rparr>"

text \<open>
  Evidence that refers to output 1 of the transaction it is in, with an empty signature set
  of notary 5 and a signature of identity 9; the transaction, whose output 0 carries the
  evidence and whose output 1 is no crypto-condition; and a validation environment that
  decodes the evidence, looks every identity up as \<open>signer\<close> and knows the currency with the
  given notaries.
\<close>

definition ex_local_evidence :: CNotaryEvidence where
  "ex_local_evidence =
     \<lparr>ne_version = 1, ne_type = 1, systemID = 1, ne_output = \<lparr>utxo_hash = 0, utxo_n = 1\<rparr>,
      confirmed = True,
      signatures = [(5, ex_signature\<lparr>sig_signatures := []\<rparr>), (9, ex_signature)],
      evidence = []\<rparr>"

definition ex_evidence_tx :: CTransaction where
  "ex_evidence_tx =
     \<lparr>tx_hash = 7,
      vout = [ex_output EVAL_NOTARY_EVIDENCE, \<lparr>scriptPubKey = OtherScript [], nValue = 0\<rparr>]\<rparr>"

definition ex_ValidateEnv :: "CIdentity \<Rightarrow> CIdentityID list \<Rightarrow> ValidateEnv" where
  "ex_ValidateEnv signer notaryIDs =
     \<lparr>venv = ex_VerifyEnv signer notaryIDs,
      myGetTransaction = (\<lambda>txid. None),
      GetCachedCurrency = (\<lambda>curID. ex_currency notaryIDs 1 NOTARIZATION_AUTO),
      NotaryEvidence_FromVector = (\<lambda>data. ex_local_evidence),
      NotaryEvidence_IsValid = (\<lambda>ne. True),
      Finalization_FromVector = (\<lambda>data. ex_finalization),
      Finalization_IsValid = (\<lambda>f. True),
      Notarization_FromVector = (\<lambda>data. ex_notarization []),
      Notarization_IsValid = (\<lambda>n. True),
      of_blank = ex_finalization\<rparr>"

text \<open>
  The proof root of this chain at a height of the example chain, as \<open>GetProofRoot\<close> gives it;
  a notarization history whose one, confirmed entry has the root of height 0; and an
  environment of chain 1 that accepts notarizations of system 2: a signature checks
  complete unless it is empty, and the prior notarization is output 0 of transaction 7.
\<close>

definition ex_root :: "uint32 \<Rightarrow> CProofRoot" where
  "ex_root h =
     CProofRoot_of 1 h (sum_list (mmv_resize (unat h) (GetMMV ex_chain)))
       (GetBlockHash (ex_chain ! unat h)) (CompactChainPower (ex_chain ! unat h))"

definition ex_history :: CChainNotarizationData where
  "ex_history =
     \<lparr>cnd_version = 1,
      vtx = [(\<lparr>utxo_hash = 7, utxo_n = 0\<rparr>, ex_notarization [(1, ex_root 0)])],
      forks = [[0]], lastConfirmed = 0, bestChain = 0\<rparr>"

definition ex_AcceptEnv :: AcceptEnv where
  "ex_AcceptEnv =
     \<lparr>ASSETCHAINS_CHAINID = 1,
      VERUS_CHAINID = 1,
      chainActive = ex_chain,
      mmrRoot = sum_list,
      SetMirror = (\<lambda>n. (True, n\<lparr>isMirror := True\<rparr>)),
      GetNotarizationData = (\<lambda>curID. Some ex_history),
      HashNotarization = (\<lambda>n. 0),
      LookupIdentityNow = (\<lambda>idID. ex_identity [ex_pkh_address] 1),
      CheckSignature = (\<lambda>sg identity codes statements sysID prefix msgHash.
                          if sig_signatures sg = [] then SIGNATURE_INVALID else SIGNATURE_COMPLETE),
      ConfirmedKey = 1,
      GetCurrencyState = (\<lambda>curID h. ex_state),
      HashCurrencyState = (\<lambda>st. 0),
      CachedCurrency = (\<lambda>curID. (ex_currency [] 1 NOTARIZATION_AUTO)\<lparr>cd_GetID := curID\<rparr>),
      ThisChain = (ex_currency [] 1 NOTARIZATION_AUTO)\<lparr>cd_GetID := 1\<rparr>,
      GetAddressUnspent = (\<lambda>conditionID. Some [\<lparr>txhash = 7, index = 0\<rparr>]),
      NotarizationConditionID = (\<lambda>curID. curID),
      GetTransaction = (\<lambda>txid. Some ex_tx),
      FromVector_Notarization = (\<lambda>data n. ex_notarization [(1, ex_root 0)]),
      IsValid_Notarization = (\<lambda>n. True),
      blank_Notarization = ex_notarization [],
      CCpubkey = (\<lambda>code. \<lparr>which = ADDRTYPE_PK, GetDestinationID = 200\<rparr>),
      DEFAULT_OUTPUT_VALUE = 0\<rparr>"

text \<open>The earned notarization of system 2 whose proof root of chain 1 is of height \<open>h\<close>.\<close>

definition ex_earned :: "uint32 \<Rightarrow> CPBaaSNotarization" where
  "ex_earned h = ex_notarization [(1, ex_root h), (2, CProofRoot_of 2 50 0 0 0)]"

definition ex_builder :: TransactionBuilder where
  "ex_builder = \<lparr>mtx_vin = [], mtx_vout = []\<rparr>"

text \<open>
  An import environment for a currency with the one reserve currency 3. A transfer is a
  pair of its being a pre-conversion and its value; its refund form is no pre-conversion.
  Value maps are compared by their totals, the canonical map drops the zero amounts,
  \<open>RevertReservesAndSupply\<close> and the import engine leave the state as it is.
\<close>

definition ex_ImportEnv :: "(bool \<times> int64) ImportEnv" where
  "ex_ImportEnv =
     \<lparr>IsPreConversion = fst,
      IsConversion = (\<lambda>t. False),
      FirstCurrency = (\<lambda>t. 3),
      FirstValue = snd,
      GetRefundTransfer = (\<lambda>t. (False, snd t)),
      CalculateConversionFee = (\<lambda>v. 0),
      ValueMap = zip,
      vm_plus = (\<lambda>a b. map (\<lambda>e. (fst e, snd e + sum_list (map snd b))) a),
      vm_less = (\<lambda>a b. sum_list (map snd a) < sum_list (map snd b)),
      vm_greater = (\<lambda>a b. sum_list (map snd b) < sum_list (map snd a)),
      CanonicalMap = filter (\<lambda>e. snd e \<noteq> 0),
      RevertReservesAndSupply = (\<lambda>st. st),
      HashObject = (\<lambda>n. 0),
      HashTransfers = (\<lambda>ts. of_nat (length ts)),
      CUTXORef_null = \<lparr>utxo_hash = 0, utxo_n = 0\<rparr>,
      ie_ASSETCHAINS_CHAINID = 1,
      ie_GetCachedCurrency = (\<lambda>curID. ex_currency [] 2 NOTARIZATION_AUTO),
      ie_ThisChain = ex_currency [] 2 NOTARIZATION_AUTO,
      AddReserveTransferImportOutputs =
        (\<lambda>source destSystem dest st ts outs imported deposits spent newState.
           (True, outs, imported, deposits, spent, newState))\<rparr>"

text \<open>
  The notarization before the launch of currency 2 with the given reserves, the values of
  the reference parameters before a call, and the launching system 1.
\<close>

definition ex_prelaunch :: "int64 list \<Rightarrow> bool \<Rightarrow> CPBaaSNotarization" where
  "ex_prelaunch rs isRefunding =
     (ex_notarization [])\<lparr>currencyState := ex_state\<lparr>reserves := rs, cs_refunding := isRefunding\<rparr>\<rparr>"

definition ex_io :: "(bool \<times> int64) list \<Rightarrow> (bool \<times> int64) NextInfo" where
  "ex_io ts =
     \<lparr>retVal = False, exportTransfers = ts, transferHash = 0, newNotarization = ex_notarization [],
      importOutputs = [], importedCurrency = [], gatewayDepositsUsed = [], spentCurrencyOut = []\<rparr>"

definition ex_source :: CCurrencyDefinition where
  "ex_source = (ex_currency [] 2 NOTARIZATION_AUTO)\<lparr>cd_GetID := 1\<rparr>"

text \<open>
  The two measures for the example transfers: a pre-conversion contributes its value and
  returns nothing, any other transfer contributes nothing and returns its value.
\<close>

definition ex_contributes :: "bool \<times> int64 \<Rightarrow> int64" where
  "ex_contributes t = (if fst t then snd t else 0)"

definition ex_returned :: "bool \<times> int64 \<Rightarrow> int64" where
  "ex_returned t = (if fst t then 0 else snd t)"

section \<open>Polarity of recorded signatures\<close>

text \<open>
  C3. An evidence object that already holds signatures keeps its polarity: on one whose
  signatures were recorded as rejecting (\<open>confirmed\<close> is false), \<open>SignConfirmed\<close> returns
  \<open>SIGNATURE_INVALID\<close> and the object is unchanged; on one recorded as confirming,
  \<open>SignRejected\<close> returns \<open>SIGNATURE_INVALID\<close> and the object is unchanged.
\<close>

theorem polarity_is_fixed:
  "signatures ne \<noteq> [] \<longrightarrow>
     (\<not> confirmed ne \<longrightarrow> SignConfirmed env ne keyStore tx signWithID height = (SIGNATURE_INVALID, ne)) \<and>
     (confirmed ne \<longrightarrow> SignRejected env ne keyStore tx signWithID height = (SIGNATURE_INVALID, ne))"
  by (simp add: SignConfirmed_def SignRejected_def)

theorem polarity_is_fixed_witness:
  "signatures (ex_evidence False [(5, ex_signature)]) \<noteq> [] \<and>
   \<not> confirmed (ex_evidence False [(5, ex_signature)]) \<and>
   SignConfirmed (ex_SignEnv SIGNATURE_COMPLETE ex_signature) (ex_evidence False [(5, ex_signature)])
       () ex_tx 6 10
     = (SIGNATURE_INVALID, ex_evidence False [(5, ex_signature)]) \<and>
   signatures (ex_evidence True [(5, ex_signature)]) \<noteq> [] \<and>
   confirmed (ex_evidence True [(5, ex_signature)]) \<and>
   SignRejected (ex_SignEnv SIGNATURE_COMPLETE ex_signature) (ex_evidence True [(5, ex_signature)])
       () ex_tx 6 10
     = (SIGNATURE_INVALID, ex_evidence True [(5, ex_signature)])"
  using polarity_is_fixed [of "ex_evidence False [(5, ex_signature)]"
          "ex_SignEnv SIGNATURE_COMPLETE ex_signature" "()" ex_tx 6 10]
        polarity_is_fixed [of "ex_evidence True [(5, ex_signature)]"
          "ex_SignEnv SIGNATURE_COMPLETE ex_signature" "()" ex_tx 6 10]
  by (simp add: ex_evidence_def)

section \<open>Signing with an identity the key store does not control\<close>

lemma signable_ex: "signable_object (ex_evidence b []) ex_tx = Some ex_params"
  by (simp add: signable_object_def ex_evidence_def ex_tx_def ex_params_def)

text \<open>
  The guard of lines 72 and 121 is \<^verbatim>\<open>!GetIdentity(...) && CanSign()\<close>. With a key store
  that does not hold the identity (\<open>GetIdentity\<close> fails, the key left behind cannot sign)
  the guard does not fire: both functions go on to \<open>NewSignature\<close> and return its verdict,
  so it is \<open>NewSignature\<close> that decides.
\<close>

lemma guard_leaves_verdict_to_NewSignature:
  "SignConfirmed (ex_SignEnv verdict sg) (ex_evidence True []) () ex_tx 5 10
     = (verdict, if verdict \<noteq> SIGNATURE_INVALID then ex_evidence True [(5, sg)]
                 else ex_evidence True []) \<and>
   SignRejected (ex_SignEnv verdict sg) (ex_evidence False []) () ex_tx 5 10
     = (verdict, if verdict \<noteq> SIGNATURE_INVALID then ex_evidence False [(5, sg)]
                 else ex_evidence False [])"
  by (simp add: SignConfirmed_def SignRejected_def signable_ex ex_SignEnv_def map_insert_def
        map_count_def) (simp add: ex_evidence_def)



section \<open>Uniqueness of the decoded object in a transaction\<close>

lemma notarization_scan_found:
  "\<exists>out \<in> set outs. is_notarization_output out \<Longrightarrow>
   notarization_scan F outs i (True, idx, this) = (fnd, idx', this') \<Longrightarrow>
   nVersion this' = VERSION_INVALID \<and> proofRoots this' = []"
  by (induction outs arbitrary: i) (auto split: if_splits)

lemma notarization_scan_two:
  "1 < length (filter is_notarization_output outs) \<Longrightarrow>
   notarization_scan F outs i (False, idx, this) = (fnd, idx', this') \<Longrightarrow>
   nVersion this' = VERSION_INVALID \<and> proofRoots this' = []"
proof (induction outs arbitrary: i idx this)
  case Nil
  then show ?case by simp
next
  case (Cons out outs)
  show ?case
  proof (cases "is_notarization_output out")
    case True
    with Cons.prems(1) have "filter is_notarization_output outs \<noteq> []" by auto
    then have ex: "\<exists>x \<in> set outs. is_notarization_output x"
      by (metis filter_False)
    from Cons.prems(2) True
    have "notarization_scan F outs (i + 1) (True, i, F (first_vData out) this) = (fnd, idx', this')"
      by simp
    from notarization_scan_found [OF ex this] show ?thesis .
  next
    case False
    with Cons show ?thesis by simp
  qed
qed

lemma finalization_scan_found:
  "\<exists>out \<in> set outs. is_finalization_output out \<Longrightarrow> num \<noteq> - 1 \<Longrightarrow>
   finalization_scan outs i (this, ecode, num) = (this', ecode', num') \<Longrightarrow>
   of_version this' = VERSION_INVALID \<and> num' = - 1"
  by (induction outs arbitrary: i) (auto split: if_splits)

lemma finalization_scan_two:
  "1 < length (filter is_finalization_output outs) \<Longrightarrow> 0 \<le> i \<Longrightarrow>
   finalization_scan outs i (this, ecode, - 1) = (this', ecode', num') \<Longrightarrow>
   of_version this' = VERSION_INVALID \<and> num' = - 1"
proof (induction outs arbitrary: i ecode)
  case Nil
  then show ?case by simp
next
  case (Cons out outs)
  show ?case
  proof (cases "is_finalization_output out")
    case True
    with Cons.prems(1) have "filter is_finalization_output outs \<noteq> []" by auto
    then have ex: "\<exists>x \<in> set outs. is_finalization_output x"
      by (metis filter_False)
    from Cons.prems(3) True
    have run: "finalization_scan outs (i + 1) (this, output_evalCode out, i) = (this', ecode', num')"
      by simp
    from Cons.prems(2) have "i \<noteq> - 1" by simp
    from finalization_scan_found [OF ex this run] show ?thesis .
  next
    case False
    with Cons.prems have "finalization_scan outs (i + 1) (this, ecode, - 1) = (this', ecode', num')"
      and "1 < length (filter is_finalization_output outs)" and "0 \<le> i + 1"
      by simp_all
    with Cons.IH show ?thesis by blast
  qed
qed

text \<open>
  C10. A transaction with more than one earned or accepted notarization output decodes to
  a notarization whose version is \<open>VERSION_INVALID\<close> and whose proof roots are cleared;
  a transaction with more than one finalization output (of a notarization or of an export)
  decodes to a finalization whose version is \<open>VERSION_INVALID\<close>, and the finalization
  output index reported is \<open>-1\<close>.
\<close>

theorem duplicate_outputs_invalidate:
  "(1 < length (filter is_notarization_output (vout tx)) \<longrightarrow>
      nVersion (fst (CPBaaSNotarization_of_tx FromVector blank outIdx0 tx)) = VERSION_INVALID \<and>
      proofRoots (fst (CPBaaSNotarization_of_tx FromVector blank outIdx0 tx)) = []) \<and>
   (1 < length (filter is_finalization_output (vout tx)) \<longrightarrow>
      of_version (fst (CObjectFinalization_of_tx oblank ecode0 tx)) = VERSION_INVALID \<and>
      snd (snd (CObjectFinalization_of_tx oblank ecode0 tx)) = - 1)"
proof (intro conjI impI)
  assume two: "1 < length (filter is_notarization_output (vout tx))"
  obtain fnd idx this' where run:
    "notarization_scan FromVector (vout tx) 0 (False, outIdx0, member_init blank)
     = (fnd, idx, this')"
    by (metis prod_cases3)
  from notarization_scan_two [OF two run]
  show "nVersion (fst (CPBaaSNotarization_of_tx FromVector blank outIdx0 tx)) = VERSION_INVALID"
    and "proofRoots (fst (CPBaaSNotarization_of_tx FromVector blank outIdx0 tx)) = []"
    by (simp_all add: CPBaaSNotarization_of_tx_def run)
next
  assume two: "1 < length (filter is_finalization_output (vout tx))"
  obtain this' ecode' num' where run:
    "finalization_scan (vout tx) 0 (oblank, ecode0, - 1) = (this', ecode', num')"
    by (metis prod_cases3)
  from finalization_scan_two [OF two _ run]
  show "of_version (fst (CObjectFinalization_of_tx oblank ecode0 tx)) = VERSION_INVALID"
    and "snd (snd (CObjectFinalization_of_tx oblank ecode0 tx)) = - 1"
    by (simp_all add: CObjectFinalization_of_tx_def run)
qed

lemma ex_double_counts:
  "length (filter is_notarization_output (vout ex_double_tx)) = 2"
  "length (filter is_finalization_output (vout ex_double_tx)) = 2"
  by (simp_all add: ex_double_tx_def ex_output_def ex_params_def is_notarization_output_def
        is_finalization_output_def)

theorem duplicate_outputs_invalidate_witness:
  "1 < length (filter is_notarization_output (vout ex_double_tx)) \<and>
   nVersion (fst (CPBaaSNotarization_of_tx (\<lambda>data this. ex_notarization [(1, CProofRoot_empty)])
                    (ex_notarization []) 0 ex_double_tx)) = VERSION_INVALID \<and>
   proofRoots (fst (CPBaaSNotarization_of_tx (\<lambda>data this. ex_notarization [(1, CProofRoot_empty)])
                    (ex_notarization []) 0 ex_double_tx)) = [] \<and>
   1 < length (filter is_finalization_output (vout ex_double_tx)) \<and>
   of_version (fst (CObjectFinalization_of_tx ex_finalization EVAL_NONE ex_double_tx))
     = VERSION_INVALID \<and>
   snd (snd (CObjectFinalization_of_tx ex_finalization EVAL_NONE ex_double_tx)) = - 1"
  using duplicate_outputs_invalidate [of ex_double_tx
          "\<lambda>data this. ex_notarization [(1, CProofRoot_empty)]" "ex_notarization []" 0
          ex_finalization EVAL_NONE]
  by (simp add: ex_double_counts)

section \<open>The proof root of a height\<close>

lemma Height_word:
  assumes "chain \<noteq> []" "length chain \<le> 2 ^ 31"
  shows "unat (word_of_int (Height chain) :: uint32) = length chain - 1"
proof -
  have "Height chain = int (length chain - 1)"
    using assms by (cases chain) (simp_all add: Height_def)
  then have "(word_of_int (Height chain) :: uint32) = of_nat (length chain - 1)"
    by simp
  moreover have "length chain - 1 < 2 ^ 32" using assms by simp
  ultimately show ?thesis by (simp add: unat_of_nat)
qed

text \<open>
  C8. On an active chain with a tip (at least the genesis block, fewer than \<open>2^31\<close>
  blocks), for every height \<open>h\<close>: \<open>GetProofRoot\<close> returns the empty, invalid proof root
  when \<open>h\<close> exceeds the chain's height; otherwise it returns a proof root whose
  \<open>rootHeight\<close> is \<open>h\<close>, whose \<open>stateRoot\<close> is the root of the Merkle mountain range
  over exactly \<open>h\<close> elements, and whose block hash and compact power are those of the
  chain's block at height \<open>h\<close>.
\<close>

theorem GetProofRoot_at_height:
  assumes "chain \<noteq> []" and "length chain \<le> 2 ^ 31"
  shows "(Height chain < int (unat h) \<longrightarrow>
            GetProofRoot rootOf cid chain h = Some CProofRoot_empty \<and>
            \<not> pr_IsValid CProofRoot_empty) \<and>
         (int (unat h) \<le> Height chain \<longrightarrow>
            (\<exists>r. GetProofRoot rootOf cid chain h = Some r \<and>
                 rootHeight r = h \<and>
                 stateRoot r = rootOf (take (unat h) (GetMMV chain)) \<and>
                 length (take (unat h) (GetMMV chain)) = unat h \<and>
                 blockHash r = GetBlockHash (chain ! unat h) \<and>
                 compactPower r = CompactChainPower (chain ! unat h)))"
proof -
  have hw: "unat (word_of_int (Height chain) :: uint32) = length chain - 1"
    by (rule Height_word [OF assms])
  have cmp: "(h > (word_of_int (Height chain) :: uint32)) = (length chain - 1 < unat h)"
    by (simp add: word_less_nat_alt hw)
  have hgt: "(Height chain < int (unat h)) = (length chain - 1 < unat h)"
    using assms(1) by (cases chain) (auto simp: Height_def uint_nat simp del: of_nat_unat)
  show ?thesis
  proof (intro conjI impI)
    assume "Height chain < int (unat h)"
    with hgt cmp show "GetProofRoot rootOf cid chain h = Some CProofRoot_empty"
      by (simp add: GetProofRoot_def)
    show "\<not> pr_IsValid CProofRoot_empty"
      by (simp add: pr_IsValid_def CProofRoot_empty_def)
  next
    assume le: "int (unat h) \<le> Height chain"
    with hgt have nl: "\<not> length chain - 1 < unat h" by simp
    then have lt: "unat h < length chain" using assms(1) by (cases chain) auto
    show "\<exists>r. GetProofRoot rootOf cid chain h = Some r \<and>
                 rootHeight r = h \<and>
                 stateRoot r = rootOf (take (unat h) (GetMMV chain)) \<and>
                 length (take (unat h) (GetMMV chain)) = unat h \<and>
                 blockHash r = GetBlockHash (chain ! unat h) \<and>
                 compactPower r = CompactChainPower (chain ! unat h)"
      using nl lt cmp
      by (simp add: GetProofRoot_def block_at_def CProofRoot_of_def mmv_resize_def GetMMV_def)
  qed
qed

theorem GetProofRoot_at_height_witness:
  "ex_chain \<noteq> [] \<and> length ex_chain \<le> 2 ^ 31 \<and>
   Height ex_chain < int (unat (5 :: uint32)) \<and>
   GetProofRoot sum_list 1 ex_chain 5 = Some CProofRoot_empty \<and>
   int (unat (1 :: uint32)) \<le> Height ex_chain \<and>
   (\<exists>r. GetProofRoot sum_list 1 ex_chain 1 = Some r \<and> rootHeight r = 1 \<and>
        stateRoot r = sum_list (take (unat (1 :: uint32)) (GetMMV ex_chain)) \<and>
        length (take (unat (1 :: uint32)) (GetMMV ex_chain)) = unat (1 :: uint32) \<and>
        blockHash r = GetBlockHash (ex_chain ! unat (1 :: uint32)) \<and>
        compactPower r = CompactChainPower (ex_chain ! unat (1 :: uint32)))"
proof -
  have ne: "ex_chain \<noteq> []" and len: "length ex_chain \<le> 2 ^ 31"
    by (simp_all add: ex_chain_def)
  have hi: "Height ex_chain < int (unat (5 :: uint32))"
    and lo: "int (unat (1 :: uint32)) \<le> Height ex_chain"
    by (simp_all add: Height_def ex_chain_def)
  from GetProofRoot_at_height [OF ne len, of 5 sum_list 1]
       GetProofRoot_at_height [OF ne len, of 1 sum_list 1] ne len hi lo
  show ?thesis by blast
qed

section \<open>The verdict on the signatures of an output\<close>

text \<open>
  The test of lines 1869 and 2026 holds of every address, so the loop over the primary
  addresses returns at the first one.
\<close>

lemma collect_idAddresses_nonempty:
  assumes "addresses \<noteq> []"
  shows "collect_idAddresses addresses idAddresses = None"
proof (cases addresses)
  case Nil
  with assms show ?thesis by simp
next
  case (Cons oneAddress rest)
  have "which oneAddress \<noteq> ADDRTYPE_PK \<or> which oneAddress \<noteq> ADDRTYPE_PKH"
    by (cases "which oneAddress") simp_all
  with Cons show ?thesis by simp
qed

lemma verify_notaries_signer_with_address:
  assumes "authorizedNotary \<in> set notaryIDs"
    and "map_of (signatures signature) authorizedNotary = Some oneIDSig"
    and "primaryAddresses (LookupIdentity env authorizedNotary height) \<noteq> []"
  shows "verify_notaries env signature codes curID height msgHash notaryIDs sets = None"
  using assms(1)
proof (induction notaryIDs arbitrary: sets)
  case Nil
  then show ?case by simp
next
  case (Cons a rest)
  obtain c p where sets: "sets = (c, p)" by (cases sets)
  show ?case
  proof (cases "a = authorizedNotary")
    case True
    with assms(2,3) show ?thesis
      by (simp add: sets Let_def collect_idAddresses_nonempty)
  next
    case False
    with Cons.prems have "authorizedNotary \<in> set rest" by simp
    with Cons.IH have "\<And>s. verify_notaries env signature codes curID height msgHash rest s = None"
      by blast
    then show ?thesis
      by (simp add: sets Let_def split: option.splits)
  qed
qed

text \<open>
  C1. Currency 1 has the one notary 5 and \<open>minNotariesConfirm = 1\<close>; identity 5 is valid,
  has the one primary address 161, of type \<open>ADDRTYPE_PKH\<close>, and \<open>minSigs = 1\<close>; the evidence
  holds one signature of identity 5 that recovers to address 161. One authorized identity
  meets its own \<open>minSigs\<close>, which reaches \<open>minNotariesConfirm\<close>, and the verdict is
  \<open>SIGNATURE_INVALID\<close>.
\<close>

theorem pkh_signer_is_invalid:
  "notaries (ex_currency [5] 1 NOTARIZATION_AUTO) = [5] \<and>
   minNotariesConfirm (ex_currency [5] 1 NOTARIZATION_AUTO) = 1 \<and>
   map_of (signatures (ex_evidence True [(5, ex_signature)])) 5 = Some ex_signature \<and>
   RecoverCompactID (ex_VerifyEnv (ex_identity [ex_pkh_address] 1) [5]) 0 ` set (sig_signatures ex_signature)
     = GetDestinationID ` set (primaryAddresses (ex_identity [ex_pkh_address] 1)) \<and>
   minSigs (ex_identity [ex_pkh_address] 1) = 1 \<and>
   VerifyOutputSignature (ex_VerifyEnv (ex_identity [ex_pkh_address] 1) [5]) ex_finalization ex_tx
       (ex_evidence True [(5, ex_signature)]) ex_params 10
     = SIGNATURE_INVALID"
  by (simp add: VerifyOutputSignature_def ex_VerifyEnv_def ex_currency_def ex_identity_def
        ex_pkh_address_def ex_evidence_def ex_signature_def ex_params_def ex_finalization_def
        CObjectFinalization_new_def VERSION_V3_def)

section \<open>Validation of notarization evidence\<close>






text \<open>
  What the address test of line 2026 hides. The condition of line 1977 holds at once when
  the evidence refers to its own transaction, whatever the output referred to is, and the
  loop of line 2010 looks at the notaries only, not at the other signers. With an identity
  that is valid without an address and with \<open>minSigs = 0\<close>, which is not well-formed,
  evidence that refers to an output that is no finalization and carries a signature of
  identity 9, no notary, is valid; with a second notary that has not signed the call fails
  with the count 1.
\<close>

lemma reference_chain_local:
  "utxo_hash (ne_output notarySig) = 0 \<Longrightarrow>
   reference_chain env notarySig p = Some (p, of_blank env, 0)"
  by (simp add: reference_chain_def)

lemma evidence_of_identity_without_address:
  "IsPayToCryptoCondition (scriptPubKey (vout ex_evidence_tx ! 1)) = None \<and>
   map_of (signatures ex_local_evidence) 9 = Some ex_signature \<and>
   ValidateNotarizationEvidence (ex_ValidateEnv (ex_identity [] 0) [5]) ex_evidence_tx 0 10
     = (Valid, 1, False) \<and>
   ValidateNotarizationEvidence (ex_ValidateEnv (ex_identity [] 0) [5, 6]) ex_evidence_tx 0 10
     = (Error ''Unauthorized notary'', 1, False)"
  by (simp add: ValidateNotarizationEvidence_def reference_chain_def ex_ValidateEnv_def
        ex_VerifyEnv_def ex_currency_def ex_identity_def ex_local_evidence_def ex_evidence_tx_def
        ex_output_def ex_params_def ex_signature_def ex_finalization_def
        CObjectFinalization_new_def VERSION_V3_def)

section \<open>Accepted notarizations\<close>

lemma check_notary_signatures_Some:
  "\<exists>oneSig \<in> set sigs.
      fst oneSig \<notin> set notarySet \<or>
      CheckSignature env (snd oneSig) (LookupIdentityNow env (fst oneSig)) [ConfirmedKey env] []
        SystemID [] objHash \<noteq> SIGNATURE_COMPLETE \<Longrightarrow>
   \<exists>msg. check_notary_signatures env notarySet SystemID objHash sigs = Some msg"
  by (induction sigs) auto

text \<open>
  C2. \<open>CreateAcceptedNotarization\<close> fails with an error, and leaves the transaction under
  construction as it was, whenever the evidence holds no signature, or a signature is keyed
  by an identity outside the notaries of the external system, or a signature does not check
  \<open>SIGNATURE_COMPLETE\<close> over the hash of the earned notarization, or the proof root of this
  chain in the earned notarization (read from its mirrored copy, as the code does) has a
  \<open>rootHeight\<close> that is not greater than that of the last confirmed notarization.
\<close>

theorem CreateAcceptedNotarization_rejects:
  assumes "signatures notaryEvidence = [] \<or>
           (\<exists>oneSig \<in> set (signatures notaryEvidence). fst oneSig \<notin> set (notaries externalSystem)) \<or>
           (\<exists>oneSig \<in> set (signatures notaryEvidence).
               CheckSignature env (snd oneSig) (LookupIdentityNow env (fst oneSig)) [ConfirmedKey env] []
                 (cd_GetID externalSystem) [] (HashNotarization env earned) \<noteq> SIGNATURE_COMPLETE) \<or>
           (\<exists>cnd prior.
               GetNotarizationData env (cd_GetID externalSystem) = Some cnd \<and> IsConfirmed cnd \<and>
               map_of (proofRoots (snd (vtx cnd ! nat (lastConfirmed cnd)))) (ASSETCHAINS_CHAINID env)
                 = Some prior \<and>
               rootHeight (fst (proofRoots_at (ASSETCHAINS_CHAINID env)
                                  (proofRoots (snd (SetMirror env earned)))))
                 \<le> rootHeight prior)"
  shows "\<exists>msg. CreateAcceptedNotarization env externalSystem earned notaryEvidence txBuilder
                 = (Failed msg, txBuilder)"
proof (cases "signatures notaryEvidence = []")
  case True
  then show ?thesis by (simp add: CreateAcceptedNotarization_def)
next
  case sigs: False
  show ?thesis
  proof (cases "isMirror earned \<or> \<not> fst (SetMirror env earned)")
    case True
    with sigs show ?thesis by (simp add: CreateAcceptedNotarization_def)
  next
    case mirror: False
    show ?thesis
    proof (cases "GetNotarizationData env (cd_GetID externalSystem)")
      case None
      with sigs mirror show ?thesis by (simp add: CreateAcceptedNotarization_def Let_def)
    next
      case (Some cnd)
      let ?ourRoot = "fst (proofRoots_at (ASSETCHAINS_CHAINID env)
                             (proofRoots (snd (SetMirror env earned))))"
      show ?thesis
      proof (cases "not_later_than_confirmed env cnd ?ourRoot")
        case True
        with sigs mirror Some show ?thesis
          by (simp add: CreateAcceptedNotarization_def Let_def)
      next
        case later: False
        from later have "\<not> (\<exists>prior. IsConfirmed cnd \<and>
            map_of (proofRoots (snd (vtx cnd ! nat (lastConfirmed cnd)))) (ASSETCHAINS_CHAINID env)
              = Some prior \<and> rootHeight ?ourRoot \<le> rootHeight prior)"
          by (auto simp: not_later_than_confirmed_def)
        with assms sigs Some
        have "\<exists>oneSig \<in> set (signatures notaryEvidence).
                fst oneSig \<notin> set (notaries externalSystem) \<or>
                CheckSignature env (snd oneSig) (LookupIdentityNow env (fst oneSig)) [ConfirmedKey env] []
                  (cd_GetID externalSystem) [] (HashNotarization env earned) \<noteq> SIGNATURE_COMPLETE"
          by auto
        from check_notary_signatures_Some [OF this]
        obtain msg where "check_notary_signatures env (notaries externalSystem)
            (cd_GetID externalSystem) (HashNotarization env earned) (signatures notaryEvidence)
          = Some msg" by blast
        with sigs mirror Some later show ?thesis
          by (simp add: CreateAcceptedNotarization_def Let_def)
      qed
    qed
  qed
qed

lemma ex_history_confirmed:
  "GetNotarizationData ex_AcceptEnv 2 = Some ex_history"
  "IsConfirmed ex_history"
  "map_of (proofRoots (snd (vtx ex_history ! nat (lastConfirmed ex_history))))
     (ASSETCHAINS_CHAINID ex_AcceptEnv) = Some (ex_root 0)"
  by (simp_all add: ex_AcceptEnv_def ex_history_def IsConfirmed_def ex_notarization_def)

lemma ex_ourRoot:
  "fst (proofRoots_at (ASSETCHAINS_CHAINID ex_AcceptEnv)
          (proofRoots (snd (SetMirror ex_AcceptEnv (ex_earned h))))) = ex_root h"
  by (simp add: ex_AcceptEnv_def ex_earned_def ex_notarization_def proofRoots_at_def)

theorem CreateAcceptedNotarization_rejects_witness:
  "signatures (ex_evidence True []) = [] \<and>
   (\<exists>msg. CreateAcceptedNotarization ex_AcceptEnv (ex_currency [5, 6] 2 NOTARIZATION_AUTO)
             (ex_earned 1) (ex_evidence True []) ex_builder = (Failed msg, ex_builder)) \<and>
   9 \<notin> set (notaries (ex_currency [5, 6] 2 NOTARIZATION_AUTO)) \<and>
   (\<exists>msg. CreateAcceptedNotarization ex_AcceptEnv (ex_currency [5, 6] 2 NOTARIZATION_AUTO)
             (ex_earned 1) (ex_evidence True [(5, ex_signature), (9, ex_signature)]) ex_builder
           = (Failed msg, ex_builder)) \<and>
   CheckSignature ex_AcceptEnv (ex_signature\<lparr>sig_signatures := []\<rparr>) (LookupIdentityNow ex_AcceptEnv 6)
       [ConfirmedKey ex_AcceptEnv] [] 2 [] (HashNotarization ex_AcceptEnv (ex_earned 1))
     = SIGNATURE_INVALID \<and>
   (\<exists>msg. CreateAcceptedNotarization ex_AcceptEnv (ex_currency [5, 6] 2 NOTARIZATION_AUTO)
             (ex_earned 1)
             (ex_evidence True [(5, ex_signature), (6, ex_signature\<lparr>sig_signatures := []\<rparr>)])
             ex_builder
           = (Failed msg, ex_builder)) \<and>
   rootHeight (ex_root 0) \<le> rootHeight (ex_root 0) \<and>
   (\<exists>msg. CreateAcceptedNotarization ex_AcceptEnv (ex_currency [5, 6] 2 NOTARIZATION_AUTO)
             (ex_earned 0) (ex_evidence True [(5, ex_signature), (6, ex_signature)]) ex_builder
           = (Failed msg, ex_builder))"
proof -
  let ?ext = "ex_currency [5, 6] 2 NOTARIZATION_AUTO"
  have id: "cd_GetID ?ext = 2" and ns: "notaries ?ext = [5, 6]"
    by (simp_all add: ex_currency_def)
  have a: "signatures (ex_evidence True []) = []"
    by (simp add: ex_evidence_def)
  have b: "\<exists>oneSig \<in> set (signatures (ex_evidence True [(5, ex_signature), (9, ex_signature)])).
             fst oneSig \<notin> set (notaries ?ext)"
    by (simp add: ex_evidence_def ns)
  have c0: "CheckSignature ex_AcceptEnv (ex_signature\<lparr>sig_signatures := []\<rparr>)
              (LookupIdentityNow ex_AcceptEnv 6) [ConfirmedKey ex_AcceptEnv] [] 2 []
              (HashNotarization ex_AcceptEnv (ex_earned 1)) = SIGNATURE_INVALID"
    by (simp add: ex_AcceptEnv_def)
  have c: "\<exists>oneSig \<in> set (signatures (ex_evidence True
               [(5, ex_signature), (6, ex_signature\<lparr>sig_signatures := []\<rparr>)])).
             CheckSignature ex_AcceptEnv (snd oneSig) (LookupIdentityNow ex_AcceptEnv (fst oneSig))
               [ConfirmedKey ex_AcceptEnv] [] (cd_GetID ?ext) []
               (HashNotarization ex_AcceptEnv (ex_earned 1)) \<noteq> SIGNATURE_COMPLETE"
    using c0 by (simp add: ex_evidence_def id)
  have d: "\<exists>cnd prior.
             GetNotarizationData ex_AcceptEnv (cd_GetID ?ext) = Some cnd \<and> IsConfirmed cnd \<and>
             map_of (proofRoots (snd (vtx cnd ! nat (lastConfirmed cnd))))
               (ASSETCHAINS_CHAINID ex_AcceptEnv) = Some prior \<and>
             rootHeight (fst (proofRoots_at (ASSETCHAINS_CHAINID ex_AcceptEnv)
                                (proofRoots (snd (SetMirror ex_AcceptEnv (ex_earned 0))))))
               \<le> rootHeight prior"
    using ex_history_confirmed by (simp add: id ex_ourRoot)
  show ?thesis
    using CreateAcceptedNotarization_rejects [of "ex_evidence True []" ?ext ex_AcceptEnv
            "ex_earned 1" ex_builder]
          CreateAcceptedNotarization_rejects
            [of "ex_evidence True [(5, ex_signature), (9, ex_signature)]" ?ext ex_AcceptEnv
                "ex_earned 1" ex_builder]
          CreateAcceptedNotarization_rejects
            [of "ex_evidence True [(5, ex_signature), (6, ex_signature\<lparr>sig_signatures := []\<rparr>)]"
                ?ext ex_AcceptEnv "ex_earned 1" ex_builder]
          CreateAcceptedNotarization_rejects
            [of "ex_evidence True [(5, ex_signature), (6, ex_signature)]" ?ext ex_AcceptEnv
                "ex_earned 0" ex_builder]
          a b c c0 d ns
    by simp
qed

text \<open>
  The finalization that \<open>accepted_outputs\<close> appends is marked confirmed exactly when the
  evidence holds at least as many signatures as the external system has notaries.
\<close>

lemma finalization_marked_iff:
  assumes "notarizationProtocol externalSystem \<noteq> NOTARIZATION_NOTARY_CHAINID"
  shows "\<exists>f. last (mtx_vout (accepted_outputs env externalSystem newN notaryEvidence height
                                 lastRef lastOut txBuilder))
               = (CondFinalization EVAL_FINALIZE_NOTARIZATION
                    [CCpubkey env EVAL_FINALIZE_NOTARIZATION] 1 f, 0) \<and>
             of_confirmed f
               = (length (notaries externalSystem) \<le> length (signatures notaryEvidence))"
  using assms
  by (simp add: accepted_outputs_def Let_def AddTransparentOutput_def AddTransparentInput_def
        SetConfirmed_def CObjectFinalization_new_def)

lemma ex_checks:
  "\<not> not_later_than_confirmed ex_AcceptEnv ex_history (ex_root 1)"
  "block_at ex_chain (unat (rootHeight (ex_root 1))) = Some (ex_chain ! 1)"
  "\<not> root_mismatch ex_AcceptEnv (ex_root 1) (ex_chain ! Suc 0)"
  "\<not> own_state_mismatch ex_AcceptEnv (ex_earned 1) (ex_root 1)"
  by (simp_all add: not_later_than_confirmed_def root_mismatch_def own_state_mismatch_def
        ex_history_confirmed ex_AcceptEnv_def ex_root_def CProofRoot_of_def ex_chain_def
        block_at_def IsConfirmed_def ex_history_def ex_notarization_def map_count_def
        mmv_resize_def GetMMV_def TYPE_PBAAS_def ex_state_def ex_earned_def)

lemma ex_root_ahead:
  "\<not> root_missing_or_ahead ex_AcceptEnv 2
       ((ex_earned 1)\<lparr>isMirror := True\<rparr>) (ex_root 1) (word_of_int (Height ex_chain))"
  by (simp add: root_missing_or_ahead_def ex_AcceptEnv_def ex_earned_def ex_notarization_def
        map_count_def pr_IsValid_def ex_root_def CProofRoot_of_def VERSION_CURRENT_def
        VERSION_INVALID_def Height_def ex_chain_def)

lemma ex_last_unspent:
  "GetLastUnspentNotarization ex_AcceptEnv 2
     = Done (ex_notarization [(1, ex_root 0)], 7, 0, ex_tx)"
  by (simp add: GetLastUnspentNotarization_def ex_AcceptEnv_def ex_tx_def ex_params_def
        CPBaaSNotarization_of_script_def)

text \<open>
  C7. The external system has the notaries 5, 6 and 7, \<open>minNotariesConfirm = 2\<close> and a
  protocol other than \<open>NOTARIZATION_NOTARY_CHAINID\<close>; the evidence holds the complete
  signatures of notaries 5 and 6. The call succeeds, and the last output it appends is a
  finalization that is not marked confirmed.
\<close>

theorem threshold_met_not_confirmed:
  "minNotariesConfirm (ex_currency [5, 6, 7] 2 NOTARIZATION_AUTO) = 2 \<and>
   map fst (signatures (ex_evidence True [(5, ex_signature), (6, ex_signature)])) = [5, 6] \<and>
   CheckSignature ex_AcceptEnv ex_signature (LookupIdentityNow ex_AcceptEnv 5)
       [ConfirmedKey ex_AcceptEnv] [] 2 [] (HashNotarization ex_AcceptEnv (ex_earned 1))
     = SIGNATURE_COMPLETE \<and>
   CheckSignature ex_AcceptEnv ex_signature (LookupIdentityNow ex_AcceptEnv 6)
       [ConfirmedKey ex_AcceptEnv] [] 2 [] (HashNotarization ex_AcceptEnv (ex_earned 1))
     = SIGNATURE_COMPLETE \<and>
   fst (CreateAcceptedNotarization ex_AcceptEnv (ex_currency [5, 6, 7] 2 NOTARIZATION_AUTO)
          (ex_earned 1) (ex_evidence True [(5, ex_signature), (6, ex_signature)]) ex_builder)
     = Done () \<and>
   fst (last (mtx_vout (snd
     (CreateAcceptedNotarization ex_AcceptEnv (ex_currency [5, 6, 7] 2 NOTARIZATION_AUTO)
        (ex_earned 1) (ex_evidence True [(5, ex_signature), (6, ex_signature)]) ex_builder))))
     = CondFinalization EVAL_FINALIZE_NOTARIZATION [CCpubkey ex_AcceptEnv EVAL_FINALIZE_NOTARIZATION] 1
         (CObjectFinalization_new FINALIZE_NOTARIZATION 1 0 2 17) \<and>
   of_confirmed (CObjectFinalization_new FINALIZE_NOTARIZATION 1 0 2 17) = False"
proof -
  let ?ext = "ex_currency [5, 6, 7] 2 NOTARIZATION_AUTO"
  let ?ev = "ex_evidence True [(5, ex_signature), (6, ex_signature)]"
  have ext: "cd_GetID ?ext = 2" "notaries ?ext = [5, 6, 7]" "minNotariesConfirm ?ext = 2"
    "notarizationProtocol ?ext = NOTARIZATION_AUTO"
    by (simp_all add: ex_currency_def)
  have ev: "signatures ?ev = [(5, ex_signature), (6, ex_signature)]"
    by (simp add: ex_evidence_def)
  have env: "SetMirror ex_AcceptEnv (ex_earned 1) = (True, (ex_earned 1)\<lparr>isMirror := True\<rparr>)"
    "isMirror (ex_earned 1) = False"
    "GetNotarizationData ex_AcceptEnv 2 = Some ex_history"
    "chainActive ex_AcceptEnv = ex_chain" "ASSETCHAINS_CHAINID ex_AcceptEnv = 1"
    "VERUS_CHAINID ex_AcceptEnv = 1"
    by (simp_all add: ex_AcceptEnv_def ex_earned_def ex_notarization_def)
  have roots: "proofRoots_at 1 (proofRoots (ex_earned 1)) = (ex_root 1, proofRoots (ex_earned 1))"
    by (simp add: proofRoots_at_def ex_earned_def ex_notarization_def)
  have chk: "CheckSignature ex_AcceptEnv ex_signature (LookupIdentityNow ex_AcceptEnv i)
               [ConfirmedKey ex_AcceptEnv] [] 2 [] (HashNotarization ex_AcceptEnv (ex_earned 1))
             = SIGNATURE_COMPLETE" for i
    by (simp add: ex_AcceptEnv_def ex_signature_def)
  have unrev: "id_IsValidUnrevoked (LookupIdentityNow ex_AcceptEnv i)" for i
    by (simp add: ex_AcceptEnv_def ex_identity_def)
  have states: "check_currencyStates ex_AcceptEnv 2 (rootHeight (ex_root 1))
                  (currencyStates (ex_earned 1)) = None"
    by (simp add: ex_earned_def ex_notarization_def)
  have proofs: "check_proofRoots ex_AcceptEnv 2 (proofRoots (ex_earned 1)) = None"
    by (simp add: ex_earned_def ex_notarization_def ex_AcceptEnv_def ex_currency_def)
  have upd: "(ex_earned 1)\<lparr>isMirror := True, proofRoots := proofRoots (ex_earned 1)\<rparr>
               = (ex_earned 1)\<lparr>isMirror := True\<rparr>"
    by simp
  have run: "CreateAcceptedNotarization ex_AcceptEnv ?ext (ex_earned 1) ?ev ex_builder
      = (Done (), accepted_outputs ex_AcceptEnv ?ext ((ex_earned 1)\<lparr>isMirror := True\<rparr>) ?ev
                    (word_of_int (Height ex_chain)) \<lparr>utxo_hash = 7, utxo_n = 0\<rparr>
                    (vout ex_tx ! 0) ex_builder)"
    by (simp add: CreateAcceptedNotarization_def Let_def ext ev env roots chk unrev ex_checks
          ex_root_ahead states proofs ex_last_unspent upd)
  have out: "fst (last (mtx_vout (accepted_outputs ex_AcceptEnv ?ext ((ex_earned 1)\<lparr>isMirror := True\<rparr>) ?ev
                    (word_of_int (Height ex_chain)) \<lparr>utxo_hash = 7, utxo_n = 0\<rparr>
                    (vout ex_tx ! 0) ex_builder)))
      = CondFinalization EVAL_FINALIZE_NOTARIZATION [CCpubkey ex_AcceptEnv EVAL_FINALIZE_NOTARIZATION] 1
         (CObjectFinalization_new FINALIZE_NOTARIZATION 1 0 2 17)"
    by (simp add: accepted_outputs_def Let_def ext ev env AddTransparentOutput_def
          AddTransparentInput_def ex_builder_def Height_def ex_chain_def)
  show ?thesis
    by (simp add: run out ext ev chk) (simp add: CObjectFinalization_new_def)
qed

section \<open>Refund or launch at the height before the start block\<close>

lemma successor_fields:
  "preLaunch (successor env this h) = preLaunch this"
  "launchCleared (successor env this h) = launchCleared this"
  "refunding (successor env this h) = refunding this"
  "launchConfirmed (successor env this h) = launchConfirmed this"
  "currencyState (successor env this h) = currencyState this"
  by (simp_all add: successor_def)

text \<open>
  In the branch of a launch from the source system, the import engine is given the
  currency state that \<open>launch_phase\<close> leaves, as the state to import into and as the first
  value of the new state, and the new notarization returned is the one \<open>launch_phase\<close>
  leaves with the new state of the engine written back.
\<close>

lemma NextNotarizationInfo_launch:
  assumes "\<not> cs_refunding (currencyState this)"
    and "launchSystemID destCurrency = cd_GetID sourceSystem"
    and "currentHeight \<le> startBlock destCurrency - 1"
    and "r = launch_phase env destCurrency this currentHeight (successor env this currentHeight)"
  shows "\<exists>ok outs imported deposits spent tempState.
           AddReserveTransferImportOutputs env sourceSystem
               (ie_GetCachedCurrency env (cd_systemID destCurrency)) destCurrency (currencyState r)
               (map (refund_check env destCurrency lastExportHeight
                       (successor env this currentHeight)) (exportTransfers io))
               (importOutputs io) (importedCurrency io) (gatewayDepositsUsed io)
               (spentCurrencyOut io) (currencyState r)
             = (ok, outs, imported, deposits, spent, tempState) \<and>
           newNotarization (NextNotarizationInfo env this sourceSystem destCurrency lastExportHeight
                              currentHeight io)
             = r\<lparr>currencyState := tempState\<rparr>"
  using assms
  by (auto simp add: NextNotarizationInfo_def Let_def split: prod.splits)

text \<open>
  C5. At the height before the start block of a currency launched from the source system,
  for a notarization that is pre-launch and whose launch is not cleared yet (and whose
  currency state is not refunding, so that the pass runs), let \<open>r\<close> be the new
  notarization as the pass leaves it and \<open>cleared\<close> the currency state the pass has before
  it decides. If the currency has a minimum pre-conversion for each of its currencies,
  whose canonical map is not empty, and the canonical map of the pre-converted reserves is
  below that canonical minimum, then the supply of \<open>r\<close>'s currency state is 0 and refunding
  is set on \<open>r\<close> and on its currency state, and launch-confirmed is left as it was on both.
  Otherwise (the reserves are not below the minimum, or there is no such minimum)
  launch-confirmed is set on both instead, and the supply and refunding are left as they
  were. The import engine is given the currency state of \<open>r\<close>, and the notarization returned
  is \<open>r\<close> with the new state of the engine written back.
\<close>

theorem launch_clear_refund_or_confirm:
  assumes "\<not> cs_refunding (currencyState this)"
    and "launchSystemID destCurrency = cd_GetID sourceSystem"
    and "currentHeight = startBlock destCurrency - 1"
    and "preLaunch this" and "\<not> launchCleared this"
    and "r = launch_phase env destCurrency this currentHeight (successor env this currentHeight)"
    and "cleared = (RevertReservesAndSupply env ((currencyState this)\<lparr>cs_launchClear := True\<rparr>))
                     \<lparr>cs_prelaunch := False\<rparr>"
    and "preConvertedMap = CanonicalMap env (ValueMap env (currencies destCurrency)
                                               (reserves cleared))"
    and "minPreMap = CanonicalMap env (ValueMap env (currencies destCurrency)
                                        (minPreconvert destCurrency))"
  shows "(minPreconvert destCurrency \<noteq> [] \<and>
          length (minPreconvert destCurrency) = length (currencies destCurrency) \<and>
          minPreMap \<noteq> [] \<and> vm_less env preConvertedMap minPreMap \<longrightarrow>
            cs_supply (currencyState r) = 0 \<and> cs_refunding (currencyState r) \<and> refunding r \<and>
            cs_launchConfirmed (currencyState r) = cs_launchConfirmed cleared \<and>
            launchConfirmed r = launchConfirmed this) \<and>
         (minPreMap_of env destCurrency = [] \<or>
          \<not> vm_less env preConvertedMap (minPreMap_of env destCurrency) \<longrightarrow>
            cs_launchConfirmed (currencyState r) \<and> launchConfirmed r \<and>
            cs_supply (currencyState r) = cs_supply cleared \<and>
            cs_refunding (currencyState r) = cs_refunding cleared \<and>
            refunding r = refunding this) \<and>
         (\<exists>ok outs imported deposits spent tempState.
            AddReserveTransferImportOutputs env sourceSystem
                (ie_GetCachedCurrency env (cd_systemID destCurrency)) destCurrency (currencyState r)
                (map (refund_check env destCurrency lastExportHeight
                        (successor env this currentHeight)) (exportTransfers io))
                (importOutputs io) (importedCurrency io) (gatewayDepositsUsed io)
                (spentCurrencyOut io) (currencyState r)
              = (ok, outs, imported, deposits, spent, tempState) \<and>
            newNotarization (NextNotarizationInfo env this sourceSystem destCurrency
                               lastExportHeight currentHeight io)
              = r\<lparr>currencyState := tempState\<rparr>)"
proof -
  have r: "r = launch_clear env destCurrency (successor env this currentHeight)"
    using assms(3,4,5,6) by (simp add: launch_phase_def successor_fields)
  from assms(3) have le: "currentHeight \<le> startBlock destCurrency - 1" by simp
  note handed = NextNotarizationInfo_launch [OF assms(1,2) le assms(6), of lastExportHeight io]
  have refund: "minPreconvert destCurrency \<noteq> [] \<and>
          length (minPreconvert destCurrency) = length (currencies destCurrency) \<and>
          minPreMap \<noteq> [] \<and> vm_less env preConvertedMap minPreMap \<longrightarrow>
            cs_supply (currencyState r) = 0 \<and> cs_refunding (currencyState r) \<and> refunding r \<and>
            cs_launchConfirmed (currencyState r) = cs_launchConfirmed cleared \<and>
            launchConfirmed r = launchConfirmed this"
    using assms(7,8,9)
    by (simp add: r launch_clear_def Let_def successor_fields minPreMap_of_def)
  have confirm: "minPreMap_of env destCurrency = [] \<or>
          \<not> vm_less env preConvertedMap (minPreMap_of env destCurrency) \<longrightarrow>
            cs_launchConfirmed (currencyState r) \<and> launchConfirmed r \<and>
            cs_supply (currencyState r) = cs_supply cleared \<and>
            cs_refunding (currencyState r) = cs_refunding cleared \<and>
            refunding r = refunding this"
    using assms(7,8)
    by (auto simp add: r launch_clear_def Let_def successor_fields)
  from refund confirm handed show ?thesis by blast
qed

theorem launch_clear_refund_or_confirm_witness:
  "cs_supply (currencyState (launch_phase ex_ImportEnv (ex_currency [] 2 NOTARIZATION_AUTO)
      (ex_prelaunch [900] False) 99 (successor ex_ImportEnv (ex_prelaunch [900] False) 99))) = 0 \<and>
   cs_refunding (currencyState (launch_phase ex_ImportEnv (ex_currency [] 2 NOTARIZATION_AUTO)
      (ex_prelaunch [900] False) 99 (successor ex_ImportEnv (ex_prelaunch [900] False) 99))) \<and>
   refunding (launch_phase ex_ImportEnv (ex_currency [] 2 NOTARIZATION_AUTO)
      (ex_prelaunch [900] False) 99 (successor ex_ImportEnv (ex_prelaunch [900] False) 99)) \<and>
   \<not> launchConfirmed (launch_phase ex_ImportEnv (ex_currency [] 2 NOTARIZATION_AUTO)
      (ex_prelaunch [900] False) 99 (successor ex_ImportEnv (ex_prelaunch [900] False) 99)) \<and>
   cs_launchConfirmed (currencyState (launch_phase ex_ImportEnv (ex_currency [] 2 NOTARIZATION_AUTO)
      (ex_prelaunch [1100] False) 99 (successor ex_ImportEnv (ex_prelaunch [1100] False) 99))) \<and>
   launchConfirmed (launch_phase ex_ImportEnv (ex_currency [] 2 NOTARIZATION_AUTO)
      (ex_prelaunch [1100] False) 99 (successor ex_ImportEnv (ex_prelaunch [1100] False) 99)) \<and>
   cs_supply (currencyState (launch_phase ex_ImportEnv (ex_currency [] 2 NOTARIZATION_AUTO)
      (ex_prelaunch [1100] False) 99 (successor ex_ImportEnv (ex_prelaunch [1100] False) 99)))
     = 1000 \<and>
   \<not> cs_refunding (currencyState (launch_phase ex_ImportEnv (ex_currency [] 2 NOTARIZATION_AUTO)
      (ex_prelaunch [1100] False) 99 (successor ex_ImportEnv (ex_prelaunch [1100] False) 99))) \<and>
   \<not> refunding (launch_phase ex_ImportEnv (ex_currency [] 2 NOTARIZATION_AUTO)
      (ex_prelaunch [1100] False) 99 (successor ex_ImportEnv (ex_prelaunch [1100] False) 99))"
proof -
  let ?dest = "ex_currency [] 2 NOTARIZATION_AUTO"
  have dest: "launchSystemID ?dest = cd_GetID ex_source" "(99 :: uint32) = startBlock ?dest - 1"
    "minPreconvert ?dest = [1000]" "currencies ?dest = [3]"
    by (simp_all add: ex_currency_def ex_source_def)
  have nz: "\<not> cs_refunding (currencyState (ex_prelaunch rs False))"
    "preLaunch (ex_prelaunch rs False)" "\<not> launchCleared (ex_prelaunch rs False)"
    "reserves (currencyState (ex_prelaunch rs False)) = rs"
    "cs_supply (currencyState (ex_prelaunch rs False)) = 1000"
    "\<not> cs_launchConfirmed (currencyState (ex_prelaunch rs False))"
    "\<not> launchConfirmed (ex_prelaunch rs False)"
    "\<not> refunding (ex_prelaunch rs False)" for rs
    by (simp_all add: ex_prelaunch_def ex_notarization_def ex_state_def)
  have maps: "CanonicalMap ex_ImportEnv (ValueMap ex_ImportEnv [3] [1000]) = [(3, 1000)]"
    "CanonicalMap ex_ImportEnv (ValueMap ex_ImportEnv [3] [900]) = [(3, 900)]"
    "CanonicalMap ex_ImportEnv (ValueMap ex_ImportEnv [3] [1100]) = [(3, 1100)]"
    "vm_less ex_ImportEnv [(3, 900)] [(3, 1000)]"
    "\<not> vm_less ex_ImportEnv [(3, 1100)] [(3, 1000)]"
    "RevertReservesAndSupply ex_ImportEnv st = st"
    for st
    by (simp_all add: ex_ImportEnv_def)
  have minmap: "minPreMap_of ex_ImportEnv ?dest = [(3, 1000)]"
    by (simp add: minPreMap_of_def dest maps)
  note low = launch_clear_refund_or_confirm
    [OF nz(1) [of "[900]"] dest(1) dest(2) nz(2) [of "[900]"] nz(3) [of "[900]"] refl refl refl refl,
     where env = ex_ImportEnv and lastExportHeight = 50 and io = "ex_io []"]
  note high = launch_clear_refund_or_confirm
    [OF nz(1) [of "[1100]"] dest(1) dest(2) nz(2) [of "[1100]"] nz(3) [of "[1100]"] refl refl refl refl,
     where env = ex_ImportEnv and lastExportHeight = 50 and io = "ex_io []"]
  from low high show ?thesis
    by (simp add: dest nz maps minmap)
qed

section \<open>Refunds of pre-conversions\<close>

text \<open>
  C6 as stated fails when the currency state is refunding already: the function returns at
  line 431, before the loop. The pre-conversion of 500, exported at the start block 100, is
  left as it is, and it differs from its refund form.
\<close>

theorem refunding_state_keeps_transfers:
  "cs_refunding (currencyState (ex_prelaunch [900] True)) \<and>
   IsPreConversion ex_ImportEnv (True, 500) \<and>
   startBlock (ex_currency [] 2 NOTARIZATION_AUTO) \<le> 100 \<and>
   exportTransfers (NextNotarizationInfo ex_ImportEnv (ex_prelaunch [900] True) ex_source
                      (ex_currency [] 2 NOTARIZATION_AUTO) 100 101 (ex_io [(True, 500)]))
     = [(True, 500)] \<and>
   GetRefundTransfer ex_ImportEnv (True, 500) \<noteq> (True, 500)"
  by (simp add: NextNotarizationInfo_def Let_def ex_prelaunch_def ex_notarization_def ex_state_def
        ex_ImportEnv_def ex_currency_def ex_io_def)

lemma NextNotarizationInfo_transfers:
  "exportTransfers (NextNotarizationInfo env this sourceSystem destCurrency lastExportHeight
                      currentHeight io)
     = (if cs_refunding (currencyState this) then exportTransfers io
        else map (refund_check env destCurrency lastExportHeight (successor env this currentHeight))
               (exportTransfers io))"
  by (simp add: NextNotarizationInfo_def Let_def split: prod.splits)

text \<open>
  C6, amended. When the currency state of the notarization is not refunding already, every
  pre-conversion transfer of the export batch that was exported at or after the start block
  of the destination currency, or whose first value net of the conversion fee, added to the
  current reserves, exceeds the maximum pre-conversion of the currency (when it has one),
  is replaced in place by its refund form, so that, by what the spec says of a refund form,
  it contributes nothing to the reserves of the currency and its full value is returned to
  the sender; the batch keeps its length. When the currency state is refunding already,
  the batch is left as it is.
\<close>

theorem preconversion_refunded:
  assumes "refund_contract env contributes returned"
    and "i < length (exportTransfers io)"
    and "t = exportTransfers io ! i"
    and "IsPreConversion env t"
    and "startBlock destCurrency \<le> lastExportHeight \<or>
         (maxPreconvert destCurrency \<noteq> [] \<and>
          vm_greater env
            (vm_plus env (ValueMap env (currencies destCurrency) (reserves (currencyState this)))
               (ValueMap env [FirstCurrency env t]
                  [FirstValue env t - CalculateConversionFee env (FirstValue env t)]))
            (ValueMap env (currencies destCurrency) (maxPreconvert destCurrency)))"
    and "batch = exportTransfers (NextNotarizationInfo env this sourceSystem destCurrency
                                    lastExportHeight currentHeight io)"
  shows "(\<not> cs_refunding (currencyState this) \<longrightarrow>
            batch ! i = GetRefundTransfer env t \<and>
            contributes (batch ! i) = 0 \<and>
            returned (batch ! i) = FirstValue env t \<and>
            length batch = length (exportTransfers io)) \<and>
         (cs_refunding (currencyState this) \<longrightarrow> batch = exportTransfers io)"
proof -
  have "refund_check env destCurrency lastExportHeight (successor env this currentHeight) t
          = GetRefundTransfer env t"
    using assms(4,5) by (auto simp: refund_check_def Let_def successor_fields)
  with assms(1,2,3,6) show ?thesis
    by (simp add: NextNotarizationInfo_transfers refund_contract_def)
qed

theorem preconversion_refunded_witness:
  "refund_contract ex_ImportEnv ex_contributes ex_returned \<and>
   exportTransfers (NextNotarizationInfo ex_ImportEnv (ex_prelaunch [900] False) ex_source
                      (ex_currency [] 2 NOTARIZATION_AUTO) 100 101 (ex_io [(True, 500)])) ! 0
     = (False, 500) \<and>
   ex_contributes (True, 500) = 500 \<and>
   ex_contributes (exportTransfers (NextNotarizationInfo ex_ImportEnv (ex_prelaunch [900] False)
      ex_source (ex_currency [] 2 NOTARIZATION_AUTO) 100 101 (ex_io [(True, 500)])) ! 0) = 0 \<and>
   ex_returned (exportTransfers (NextNotarizationInfo ex_ImportEnv (ex_prelaunch [900] False)
      ex_source (ex_currency [] 2 NOTARIZATION_AUTO) 100 101 (ex_io [(True, 500)])) ! 0) = 500 \<and>
   exportTransfers (NextNotarizationInfo ex_ImportEnv (ex_prelaunch [800] False) ex_source
                      ((ex_currency [] 2 NOTARIZATION_AUTO)\<lparr>maxPreconvert := [1000]\<rparr>) 50 60
                      (ex_io [(True, 500)])) ! 0
     = (False, 500) \<and>
   exportTransfers (NextNotarizationInfo ex_ImportEnv (ex_prelaunch [900] True) ex_source
                      (ex_currency [] 2 NOTARIZATION_AUTO) 100 101 (ex_io [(True, 500)]))
     = exportTransfers (ex_io [(True, 500)])"
proof -
  let ?dest = "ex_currency [] 2 NOTARIZATION_AUTO"
  have nz: "cs_refunding (currencyState (ex_prelaunch rs b)) = b"
    "reserves (currencyState (ex_prelaunch rs b)) = rs" for rs b
    by (simp_all add: ex_prelaunch_def ex_notarization_def ex_state_def)
  have contract: "refund_contract ex_ImportEnv ex_contributes ex_returned"
    by (simp add: refund_contract_def ex_ImportEnv_def ex_contributes_def ex_returned_def)
  have c1: "ex_contributes (True, 500) = 500" "ex_contributes (False, 500) = 0"
    "ex_returned (False, 500) = 500"
    by (simp_all add: ex_contributes_def ex_returned_def)
  have io: "(0 :: nat) < length (exportTransfers (ex_io [(True, 500)]))"
    "exportTransfers (ex_io [(True, 500)]) ! 0 = (True, 500)"
    by (simp_all add: ex_io_def)
  have pre: "IsPreConversion ex_ImportEnv (True, 500)"
    "GetRefundTransfer ex_ImportEnv (True, 500) = (False, 500)"
    "FirstValue ex_ImportEnv (True, 500) = 500"
    by (simp_all add: ex_ImportEnv_def)
  have late: "startBlock ?dest \<le> 100 \<or>
         (maxPreconvert ?dest \<noteq> [] \<and>
          vm_greater ex_ImportEnv
            (vm_plus ex_ImportEnv (ValueMap ex_ImportEnv (currencies ?dest)
                 (reserves (currencyState (ex_prelaunch [900] b))))
               (ValueMap ex_ImportEnv [FirstCurrency ex_ImportEnv (True, 500)]
                  [FirstValue ex_ImportEnv (True, 500)
                     - CalculateConversionFee ex_ImportEnv (FirstValue ex_ImportEnv (True, 500))]))
            (ValueMap ex_ImportEnv (currencies ?dest) (maxPreconvert ?dest)))" for b
    by (simp add: ex_currency_def)
  have over: "startBlock (?dest\<lparr>maxPreconvert := [1000]\<rparr>) \<le> 50 \<or>
         (maxPreconvert (?dest\<lparr>maxPreconvert := [1000]\<rparr>) \<noteq> [] \<and>
          vm_greater ex_ImportEnv
            (vm_plus ex_ImportEnv (ValueMap ex_ImportEnv (currencies (?dest\<lparr>maxPreconvert := [1000]\<rparr>))
                 (reserves (currencyState (ex_prelaunch [800] False))))
               (ValueMap ex_ImportEnv [FirstCurrency ex_ImportEnv (True, 500)]
                  [FirstValue ex_ImportEnv (True, 500)
                     - CalculateConversionFee ex_ImportEnv (FirstValue ex_ImportEnv (True, 500))]))
            (ValueMap ex_ImportEnv (currencies (?dest\<lparr>maxPreconvert := [1000]\<rparr>))
               (maxPreconvert (?dest\<lparr>maxPreconvert := [1000]\<rparr>))))"
    by (simp add: ex_currency_def nz ex_ImportEnv_def)
  from preconversion_refunded [OF contract io(1) io(2) [symmetric] pre(1) late [of False] refl,
         where sourceSystem = ex_source and currentHeight = 101]
       preconversion_refunded [OF contract io(1) io(2) [symmetric] pre(1) over refl,
         where sourceSystem = ex_source and currentHeight = 60]
       preconversion_refunded [OF contract io(1) io(2) [symmetric] pre(1) late [of True] refl,
         where sourceSystem = ex_source and currentHeight = 101]
       contract
  show ?thesis by (simp add: pre nz c1)
qed

end
